theory Spec2Isabelle
  imports Complex_Main "HOL-Library.Word" "HOL-Library.Sublist"
begin

section \<open>C strings and the library calls the sources make\<close>

text \<open>
  A C string is the list of its characters before the terminating NUL; a character
  buffer (\<open>char buf[64]\<close>) is the list of all its cells, NUL cells included, and
  \<open>c_str\<close> reads the string it holds. A pointer that may be NULL is an \<open>option\<close>.
  \<open>malloc\<close>, \<open>calloc\<close> and \<open>strdup\<close> are taken to succeed (the sources check the
  result at the creation of an exporter and of a call context only).
\<close>

definition NUL :: char where
  "NUL = CHR 0x00"

definition c_str :: "char list \<Rightarrow> string" where
  "c_str buf = takeWhile (\<lambda>c. c \<noteq> NUL) buf"

definition strlen :: "char list \<Rightarrow> nat" where
  "strlen buf = length (c_str buf)"

text \<open>\<open>strncmp(a, b, n) == 0\<close>: the first \<open>n\<close> characters agree (or both strings end before).\<close>

definition strncmp_eq :: "string \<Rightarrow> string \<Rightarrow> nat \<Rightarrow> bool" where
  "strncmp_eq a b n = (take n a = take n b)"

text \<open>\<open>strchr(s, c)\<close> for a character other than NUL: the offset of the first \<open>c\<close>, or NULL.\<close>

fun strchr :: "string \<Rightarrow> char \<Rightarrow> nat option" where
  "strchr [] c = None"
| "strchr (x # xs) c = (if x = c then Some 0 else map_option Suc (strchr xs c))"

text \<open>\<open>strstr(haystack, needle)\<close>: the suffix of the haystack that starts at the first
  occurrence of the needle, or NULL.\<close>

fun strstr :: "string \<Rightarrow> string \<Rightarrow> string option" where
  "strstr [] needle = (if needle = [] then Some [] else None)"
| "strstr (h # hs) needle =
     (if prefix needle (h # hs) then Some (h # hs) else strstr hs needle)"

section \<open>Collector endpoint (otlp\_exporter.c, otlp\_log\_exporter.c, otlp\_metrics\_exporter.c)\<close>

text \<open>The first block of \<open>parse_endpoint\<close>: skip \<open>http://\<close> or \<open>https://\<close>.\<close>

definition skip_scheme :: "string \<Rightarrow> string" where
  "skip_scheme endpoint =
     (if strncmp_eq endpoint ''http://'' 7 then drop 7 endpoint
      else if strncmp_eq endpoint ''https://'' 8 then drop 8 endpoint
      else endpoint)"

text \<open>\<open>parse_endpoint\<close> returns its status and the two strings it stores through
  \<open>host\<close> and \<open>port\<close>. The three exporters carry the same text of it.\<close>

definition parse_endpoint :: "string \<Rightarrow> int \<times> string \<times> string" where
  "parse_endpoint endpoint =
     (let ptr = skip_scheme endpoint in
      case strchr ptr CHR '':'' of
        Some host_len \<Rightarrow> (0, take host_len ptr, drop (host_len + 1) ptr)
      | None \<Rightarrow> (0, ptr, ''4317''))"

text \<open>The split the specification describes: on the last colon of the remainder.\<close>

definition split_last_colon :: "string \<Rightarrow> string \<times> string" where
  "split_last_colon r =
     (if CHR '':'' \<in> set r
      then (rev (tl (dropWhile (\<lambda>c. c \<noteq> CHR '':'') (rev r))),
            rev (takeWhile (\<lambda>c. c \<noteq> CHR '':'') (rev r)))
      else (r, ''4317''))"

section \<open>Hex identifiers (hex\_to\_bytes in otlp\_exporter.c and otlp\_log\_exporter.c)\<close>

definition isspace :: "char \<Rightarrow> bool" where
  "isspace c = (c \<in> set [CHR '' '', CHR 0x09, CHR 0x0A, CHR 0x0B, CHR 0x0C, CHR 0x0D])"

text \<open>The value of a hexadecimal digit of either case, as \<open>%x\<close> reads it.\<close>

definition hex_digit_val :: "char \<Rightarrow> nat option" where
  "hex_digit_val c =
     (let n = (of_char c :: nat) in
      if 48 \<le> n \<and> n \<le> 57 then Some (n - 48)
      else if 97 \<le> n \<and> n \<le> 102 then Some (n - 87)
      else if 65 \<le> n \<and> n \<le> 70 then Some (n - 55)
      else None)"

text \<open>
  \<open>sscanf(s, "%2x", &val) == 1\<close> with the value stored, or \<open>None\<close> when the call
  returns anything else (no digit to read, or the end of the string). The directive
  skips white space, then reads at most two characters: an optional sign and
  hexadecimal digits. A negative value wraps in the \<open>unsigned int\<close>. The text \<open>0x\<close>
  reads as the digit \<open>0\<close>.
\<close>

definition sscanf_2x :: "string \<Rightarrow> 32 word option" where
  "sscanf_2x s =
     (case dropWhile isspace s of
        [] \<Rightarrow> None
      | c # r \<Rightarrow>
          if c = CHR ''-'' \<or> c = CHR ''+'' then
            (case r of
               [] \<Rightarrow> None
             | d # _ \<Rightarrow>
                 (case hex_digit_val d of
                    None \<Rightarrow> None
                  | Some v \<Rightarrow> Some (if c = CHR ''-'' then - of_nat v else of_nat v)))
          else
            (case hex_digit_val c of
               None \<Rightarrow> None
             | Some v1 \<Rightarrow>
                 (case r of
                    [] \<Rightarrow> Some (of_nat v1)
                  | d # _ \<Rightarrow>
                      (case hex_digit_val d of
                         None \<Rightarrow> Some (of_nat v1)
                       | Some v2 \<Rightarrow> Some (of_nat (16 * v1 + v2))))))"

text \<open>The loop of \<open>hex_to_bytes\<close> from index \<open>i\<close>; the result is the return value and
  the byte buffer as the call leaves it.\<close>

function hex_to_bytes_loop :: "string \<Rightarrow> nat \<Rightarrow> nat \<Rightarrow> 8 word list \<Rightarrow> int \<times> 8 word list" where
  "hex_to_bytes_loop hex len i bytes =
     (if i < len then
        (case sscanf_2x (drop (i * 2) hex) of
           None \<Rightarrow> (- 1, bytes)
         | Some val \<Rightarrow> hex_to_bytes_loop hex len (i + 1) (bytes[i := ucast val]))
      else (0, bytes))"
  by pat_completeness auto
termination
  by (relation "measure (\<lambda>(hex, len, i, bytes). len - i)") auto

definition hex_to_bytes :: "string \<Rightarrow> 8 word list \<Rightarrow> nat \<Rightarrow> int \<times> 8 word list" where
  "hex_to_bytes hex bytes len = hex_to_bytes_loop hex len 0 bytes"

definition hex_digits :: string where
  "hex_digits = ''0123456789abcdef''"

text \<open>Modelled from the spec: the sources hold no function that renders bytes as
  hexadecimal text. The specification's IdentifierCodec "converts between fixed-length
  hexadecimal text identifiers and raw byte buffers"; the rendering is the usual one,
  two lowercase digits per byte, high nibble first.\<close>

definition bytes_to_hex :: "8 word list \<Rightarrow> string" where
  "bytes_to_hex bs =
     concat (map (\<lambda>b. [hex_digits ! (unat b div 16), hex_digits ! (unat b mod 16)]) bs)"

definition lower_hex_string :: "string \<Rightarrow> bool" where
  "lower_hex_string s = list_all (\<lambda>c. c \<in> set hex_digits) s"

section \<open>Trace context (main.c)\<close>

text \<open>\<open>rand()\<close>: the generator's state is the sequence of the values it will return.\<close>

type_synonym rand_state = "nat \<Rightarrow> nat"

definition rand :: "rand_state \<Rightarrow> nat \<times> rand_state" where
  "rand g = (g 0, \<lambda>i. g (Suc i))"

text \<open>\<open>size_t\<close> subtraction wraps.\<close>

definition size_sub :: "nat \<Rightarrow> nat \<Rightarrow> nat" where
  "size_sub a b = (a + 2 ^ 64 - b mod 2 ^ 64) mod 2 ^ 64"

function generate_id_loop ::
  "nat \<Rightarrow> nat \<Rightarrow> nat \<Rightarrow> char list \<Rightarrow> rand_state \<Rightarrow> char list \<times> rand_state" where
  "generate_id_loop n len i out g =
     (if i < size_sub len 1 \<and> i < n then
        (let (r, g') = rand g
         in generate_id_loop n len (i + 1) (out[i := hex_digits ! (r mod 16)]) g')
      else (out, g))"
  by pat_completeness auto
termination
  by (relation "measure (\<lambda>(n, len, i, out, g). n - i)") auto

definition generate_trace_id :: "char list \<Rightarrow> nat \<Rightarrow> rand_state \<Rightarrow> char list \<times> rand_state" where
  "generate_trace_id out len g =
     (let (out', g') = generate_id_loop 32 len 0 out g
      in (out'[size_sub len 1 := NUL], g'))"

definition generate_span_id :: "char list \<Rightarrow> nat \<Rightarrow> rand_state \<Rightarrow> char list \<times> rand_state" where
  "generate_span_id out len g =
     (let (out', g') = generate_id_loop 16 len 0 out g
      in (out'[size_sub len 1 := NUL], g'))"

text \<open>\<open>strncpy(dst, src, n)\<close> into a buffer of at least \<open>n\<close> cells: the characters of
  the source up to its NUL, the rest of the \<open>n\<close> cells filled with NUL.\<close>

definition strncpy :: "char list \<Rightarrow> char list \<Rightarrow> nat \<Rightarrow> char list" where
  "strncpy dst src n =
     (let s = take n (c_str src) in s @ replicate (n - length s) NUL @ drop n dst)"

text \<open>A metadata entry is its key and value slices; \<open>grpc_slice_to_c_string\<close> copies a
  slice and ends it with NUL, so the code sees \<open>c_str\<close> of each. The loop of
  \<open>extract_trace_context\<close> over the metadata array:\<close>

type_synonym grpc_metadata = "char list \<times> char list"

fun scan_metadata :: "grpc_metadata list \<Rightarrow> char list \<Rightarrow> char list \<Rightarrow> char list \<times> char list" where
  "scan_metadata [] trace_id parent_span_id = (trace_id, parent_span_id)"
| "scan_metadata ((key, val) # md) trace_id parent_span_id =
     (if c_str key = ''traceparent'' \<and> strlen val \<ge> 55 then
        scan_metadata md
          ((strncpy trace_id (drop 3 val) 32)[32 := NUL])
          ((strncpy parent_span_id (drop 36 val) 16)[16 := NUL])
      else scan_metadata md trace_id parent_span_id)"

definition extract_trace_context ::
  "grpc_metadata list \<Rightarrow> char list \<Rightarrow> nat \<Rightarrow> char list \<Rightarrow> nat \<Rightarrow> rand_state
     \<Rightarrow> char list \<times> char list \<times> rand_state" where
  "extract_trace_context metadata trace_id trace_id_len parent_span_id parent_span_len g =
     (let (t, p) = scan_metadata metadata (trace_id[0 := NUL]) (parent_span_id[0 := NUL])
      in if t ! 0 = NUL then
           (let (t', g') = generate_trace_id t trace_id_len g in (t', p, g'))
         else (t, p, g))"

text \<open>The head of \<open>handle_fetch_legacy_data\<close>: three zeroed buffers
  (\<open>char trace_id[64] = {0}\<close>, \<open>parent_span_id[32]\<close>, \<open>span_id[32]\<close>), the trace
  context of the call and a span id for the operation. The result holds the three
  strings the handler goes on with.\<close>

definition handler_trace_ids ::
  "grpc_metadata list \<Rightarrow> rand_state \<Rightarrow> string \<times> string \<times> string \<times> rand_state" where
  "handler_trace_ids request_metadata g =
     (let (trace_id, parent_span_id, g1) =
            extract_trace_context request_metadata (replicate 64 NUL) 64 (replicate 32 NUL) 32 g;
          (span_id, g2) = generate_span_id (replicate 32 NUL) 32 g1
      in (c_str trace_id, c_str parent_span_id, c_str span_id, g2))"

text \<open>The entries the extractor takes its identifiers from.\<close>

definition is_traceparent :: "grpc_metadata \<Rightarrow> bool" where
  "is_traceparent kv = (c_str (fst kv) = ''traceparent'' \<and> strlen (snd kv) \<ge> 55)"

section \<open>The server loop (run\_server in main.c)\<close>

datatype grpc_completion_type = GRPC_QUEUE_SHUTDOWN | GRPC_QUEUE_TIMEOUT | GRPC_OP_COMPLETE

record grpc_event =
  ev_type :: grpc_completion_type
  ev_success :: int
  ev_tag :: int

text \<open>
  What \<open>grpc_completion_queue_next\<close> hands to the loop: the event and, for the event
  that completes a \<open>grpc_server_request_call\<close>, the method and the metadata the core
  has stored into the context that was waiting (\<open>ctx->call_details\<close>,
  \<open>ctx->request_metadata\<close>). The queue is the list of the deliveries to come.
\<close>

record delivery =
  event :: grpc_event
  arrived_method :: string
  arrived_metadata :: "grpc_metadata list"

record call_context_t =
  request_id :: int
  call_details_method :: string
  request_metadata :: "grpc_metadata list"

datatype grpc_status_code = GRPC_STATUS_OK | GRPC_STATUS_UNIMPLEMENTED

datatype grpc_op =
    GRPC_OP_SEND_INITIAL_METADATA nat
  | GRPC_OP_SEND_MESSAGE
  | GRPC_OP_SEND_STATUS_FROM_SERVER grpc_status_code string
  | GRPC_OP_RECV_MESSAGE

text \<open>What the loop does to the outside, in order: \<open>grpc_server_request_call\<close> with
  its tag; \<open>grpc_call_start_batch\<close> on the call of a context (named by its request id)
  with its operations and tag; the body of \<open>handle_fetch_legacy_data\<close> entered for a
  context; \<open>cleanup_call_context\<close>.\<close>

datatype server_action =
    Request_call int
  | Start_batch int "grpc_op list" int
  | Handle_fetch_legacy_data int
  | Cleanup_call_context int

text \<open>Where the thread stands between two calls of \<open>grpc_completion_queue_next\<close>: at
  the head of the main loop, or inside one of the three \<open>do ... while\<close> waits (for the
  message, tag 1; for the response batch, tag 2; for the status batch, tag 3), each
  holding the context being served. \<open>Null_dereference\<close> is the read of
  \<open>pending_ctx->request_id\<close> through a NULL \<open>pending_ctx\<close>.\<close>

datatype server_pc =
    Main_loop
  | Wait_message call_context_t
  | Wait_response call_context_t
  | Wait_status call_context_t
  | Loop_exited
  | Null_dereference

text \<open>The state of the thread. \<open>request_counter\<close> is the static \<open>int\<close> of
  \<open>request_call\<close>; the model leaves it unbounded, so it covers the runs in which the
  counter stays below \<open>INT_MAX\<close>.\<close>

record server =
  pc :: server_pc
  pending_ctx :: "call_context_t option"
  request_counter :: int
  g_shutdown :: bool
  actions :: "server_action list"

text \<open>\<open>request_call\<close>: a fresh context with the next request id, registered with the
  core. \<open>req_ok id\<close> says whether \<open>grpc_server_request_call\<close> returns
  \<open>GRPC_CALL_OK\<close> for that registration; if not the result is NULL.\<close>

definition request_call :: "(int \<Rightarrow> bool) \<Rightarrow> server \<Rightarrow> call_context_t option \<times> server" where
  "request_call req_ok s =
     (let id = request_counter s + 1;
          s1 = s\<lparr>request_counter := id, actions := actions s @ [Request_call id]\<rparr>
      in if req_ok id
         then (Some \<lparr>request_id = id, call_details_method = [], request_metadata = []\<rparr>, s1)
         else (None, s1))"

text \<open>The exit test of the three waits:
  \<open>while (ev.type != GRPC_OP_COMPLETE || ev.tag != tag)\<close>.\<close>

definition wait_over :: "int \<Rightarrow> grpc_event \<Rightarrow> bool" where
  "wait_over tag ev = (\<not> (ev_type ev \<noteq> GRPC_OP_COMPLETE \<or> ev_tag ev \<noteq> tag))"

definition emit :: "server_action list \<Rightarrow> server \<Rightarrow> server" where
  "emit as s = s\<lparr>actions := actions s @ as\<rparr>"

text \<open>One iteration of the main loop on the event just taken from the queue.\<close>

definition main_loop_body :: "(int \<Rightarrow> bool) \<Rightarrow> server \<Rightarrow> delivery \<Rightarrow> server" where
  "main_loop_body req_ok s d =
     (let ev = event d in
      if ev_type ev = GRPC_OP_COMPLETE \<and> ev_success ev \<noteq> 0 then
        (case pending_ctx s of
           None \<Rightarrow> s\<lparr>pc := Null_dereference\<rparr>
         | Some pending \<Rightarrow>
             if ev_tag ev = request_id pending then
               (let ctx = pending\<lparr>call_details_method := arrived_method d,
                                  request_metadata := arrived_metadata d\<rparr>;
                    (next_ctx, s1) = request_call req_ok s;
                    s2 = s1\<lparr>pending_ctx := next_ctx\<rparr>
                in if strstr (call_details_method ctx) ''FetchLegacyData'' \<noteq> None then
                     (emit [Start_batch (request_id ctx) [GRPC_OP_RECV_MESSAGE] 1] s2)
                       \<lparr>pc := Wait_message ctx\<rparr>
                   else
                     (emit [Start_batch (request_id ctx)
                              [GRPC_OP_SEND_INITIAL_METADATA 0,
                               GRPC_OP_SEND_STATUS_FROM_SERVER GRPC_STATUS_UNIMPLEMENTED
                                 ''Method not implemented'']
                              3] s2)
                       \<lparr>pc := Wait_status ctx\<rparr>)
             else s)
      else if ev_type ev = GRPC_QUEUE_SHUTDOWN then s\<lparr>pc := Loop_exited\<rparr>
      else s)"

text \<open>The server thread at one delivery. In a wait, a delivery that does not end the
  wait is dropped. When the message has come the handler runs up to its own wait:
  it builds the response and starts the batch of initial metadata, message and OK
  status under tag 2; after that wait it records its telemetry and returns, and the
  loop frees the context.\<close>

definition server_step :: "(int \<Rightarrow> bool) \<Rightarrow> server \<Rightarrow> delivery \<Rightarrow> server" where
  "server_step req_ok s d =
     (case pc s of
        Main_loop \<Rightarrow>
          if g_shutdown s then s\<lparr>pc := Loop_exited\<rparr> else main_loop_body req_ok s d
      | Wait_message ctx \<Rightarrow>
          if wait_over 1 (event d) then
            (emit [Handle_fetch_legacy_data (request_id ctx),
                   Start_batch (request_id ctx)
                     [GRPC_OP_SEND_INITIAL_METADATA 0, GRPC_OP_SEND_MESSAGE,
                      GRPC_OP_SEND_STATUS_FROM_SERVER GRPC_STATUS_OK ''OK'']
                     2] s)
              \<lparr>pc := Wait_response ctx\<rparr>
          else s
      | Wait_response ctx \<Rightarrow>
          if wait_over 2 (event d) then
            (emit [Cleanup_call_context (request_id ctx)] s)\<lparr>pc := Main_loop\<rparr>
          else s
      | Wait_status ctx \<Rightarrow>
          if wait_over 3 (event d) then
            (emit [Cleanup_call_context (request_id ctx)] s)\<lparr>pc := Main_loop\<rparr>
          else s
      | Loop_exited \<Rightarrow> s
      | Null_dereference \<Rightarrow> s)"

definition run_server_loop :: "(int \<Rightarrow> bool) \<Rightarrow> server \<Rightarrow> delivery list \<Rightarrow> server" where
  "run_server_loop req_ok s ds = foldl (server_step req_ok) s ds"

text \<open>The state in which \<open>run_server\<close> enters its loop: the first call requested.\<close>

definition server_start :: "(int \<Rightarrow> bool) \<Rightarrow> server" where
  "server_start req_ok =
     (let s0 = \<lparr>pc = Main_loop, pending_ctx = None, request_counter = 0,
                g_shutdown = False, actions = []\<rparr>;
          (ctx, s1) = request_call req_ok s0
      in s1\<lparr>pending_ctx := ctx\<rparr>)"

text \<open>An event that completes the request registered under \<open>tag\<close>.\<close>

definition call_arrives :: "int \<Rightarrow> string \<Rightarrow> grpc_metadata list \<Rightarrow> delivery" where
  "call_arrives tag m md =
     \<lparr>event = \<lparr>ev_type = GRPC_OP_COMPLETE, ev_success = 1, ev_tag = tag\<rparr>,
      arrived_method = m, arrived_metadata = md\<rparr>"

definition batch_done :: "int \<Rightarrow> delivery" where
  "batch_done tag =
     \<lparr>event = \<lparr>ev_type = GRPC_OP_COMPLETE, ev_success = 1, ev_tag = tag\<rparr>,
      arrived_method = [], arrived_metadata = []\<rparr>"

text \<open>The event of a \<open>grpc_completion_queue_next\<close> that ran into its deadline.\<close>

definition queue_timeout :: delivery where
  "queue_timeout =
     \<lparr>event = \<lparr>ev_type = GRPC_QUEUE_TIMEOUT, ev_success = 0, ev_tag = 0\<rparr>,
      arrived_method = [], arrived_metadata = []\<rparr>"

section \<open>Span exporter (otlp\_exporter.h, otlp\_exporter.c)\<close>

text \<open>\<open>span_attribute_t\<close>, \<open>log_attribute_t\<close> and \<open>metric_attribute_t\<close> are the same
  struct of two strings.\<close>

record attribute_t =
  key :: string
  string_value :: string

datatype span_kind_t =
    SPAN_KIND_UNSPECIFIED | SPAN_KIND_INTERNAL | SPAN_KIND_SERVER
  | SPAN_KIND_CLIENT | SPAN_KIND_PRODUCER | SPAN_KIND_CONSUMER

datatype span_status_code_t = SPAN_STATUS_UNSET | SPAN_STATUS_OK | SPAN_STATUS_ERROR

text \<open>\<open>otlp_span_t\<close>. The attribute array has at least \<open>attribute_count\<close> entries
  when it is not NULL.\<close>

record otlp_span_t =
  trace_id :: "string option"
  span_id :: "string option"
  parent_span_id :: "string option"
  name :: "string option"
  kind :: span_kind_t
  start_time_nanos :: "64 word"
  end_time_nanos :: "64 word"
  status_code :: span_status_code_t
  status_message :: "string option"
  attributes :: "attribute_t list option"
  attribute_count :: nat

definition MAX_BATCH_SIZE :: nat where
  "MAX_BATCH_SIZE = 64"

text \<open>\<open>struct otlp_exporter\<close>: the service name and the batch (the channel, the
  completion queue, the mutex and the thread handle carry no data of the model; a
  function body between lock and unlock is one step).\<close>

record otlp_exporter_t =
  service_name :: string
  pending_spans :: "otlp_span_t option list"
  pending_count :: nat

text \<open>The exporter as \<open>otlp_exporter_create\<close> returns it (\<open>calloc\<close>).\<close>

definition otlp_exporter_create :: "string \<Rightarrow> otlp_exporter_t" where
  "otlp_exporter_create svc =
     \<lparr>service_name = svc, pending_spans = replicate MAX_BATCH_SIZE None, pending_count = 0\<rparr>"

definition copy_attributes :: "nat \<Rightarrow> attribute_t list option \<Rightarrow> attribute_t list option \<times> nat" where
  "copy_attributes n attrs =
     (case attrs of
        None \<Rightarrow> (None, 0)
      | Some as \<Rightarrow>
          if n > 0
          then (Some (map (\<lambda>a. \<lparr>key = key a, string_value = string_value a\<rparr>) (take n as)), n)
          else (None, 0))"

text \<open>The copy \<open>otlp_export_span\<close> makes ("Copy span data", "Copy attributes"); the
  fields it does not assign keep the zero of \<open>calloc\<close>.\<close>

definition copy_span :: "otlp_span_t \<Rightarrow> otlp_span_t" where
  "copy_span sp =
     (let (attrs, n) = copy_attributes (attribute_count sp) (attributes sp) in
      \<lparr>trace_id = Some (case trace_id sp of Some s \<Rightarrow> s | None \<Rightarrow> ''''),
       span_id = Some (case span_id sp of Some s \<Rightarrow> s | None \<Rightarrow> ''''),
       parent_span_id = (case parent_span_id sp of Some s \<Rightarrow> Some s | None \<Rightarrow> None),
       name = Some (case name sp of Some s \<Rightarrow> s | None \<Rightarrow> ''''),
       kind = kind sp,
       start_time_nanos = start_time_nanos sp,
       end_time_nanos = end_time_nanos sp,
       status_code = status_code sp,
       status_message = None,
       attributes = attrs,
       attribute_count = n\<rparr>)"

definition otlp_export_span ::
  "otlp_exporter_t option \<Rightarrow> otlp_span_t option \<Rightarrow> int \<times> otlp_exporter_t option" where
  "otlp_export_span exporter sp0 =
     (case (exporter, sp0) of
        (Some e, Some sp) \<Rightarrow>
          if pending_count e \<ge> MAX_BATCH_SIZE then (- 1, Some e)
          else (0, Some (e\<lparr>pending_spans := (pending_spans e)[pending_count e := Some (copy_span sp)],
                           pending_count := pending_count e + 1\<rparr>))
      | _ \<Rightarrow> (- 1, exporter))"

text \<open>The drain under the mutex, the same text in \<open>otlp_exporter_flush\<close> and in
  \<open>export_thread_func\<close>: the first \<open>pending_count\<close> slots move to the local batch.\<close>

definition take_batch :: "otlp_exporter_t \<Rightarrow> otlp_span_t option list \<times> otlp_exporter_t" where
  "take_batch e =
     (let batch_count = pending_count e;
          (batch, pend) =
             fold (\<lambda>i (b, p). (b @ [p ! i], p[i := None])) [0..<batch_count] ([], pending_spans e)
      in (batch, e\<lparr>pending_spans := pend, pending_count := 0\<rparr>))"

text \<open>\<open>otlp_exporter_flush\<close>: the return value, the exporter afterwards, and the
  batch handed to \<open>do_export\<close> (\<open>None\<close> when \<open>do_export\<close> is not called).\<close>

definition otlp_exporter_flush ::
  "otlp_exporter_t option \<Rightarrow> int \<times> otlp_exporter_t option \<times> otlp_span_t option list option" where
  "otlp_exporter_flush exporter =
     (case exporter of
        None \<Rightarrow> (- 1, None, None)
      | Some e \<Rightarrow>
          if pending_count e > 0
          then (let (batch, e') = take_batch e in (0, Some e', Some batch))
          else (0, Some e, None))"

text \<open>One round of \<open>export_thread_func\<close> after its sleep.\<close>

definition export_thread_round ::
  "otlp_exporter_t \<Rightarrow> otlp_exporter_t \<times> otlp_span_t option list option" where
  "export_thread_round e =
     (if pending_count e > 0
      then (let (batch, e') = take_batch e in (e', Some batch))
      else (e, None))"

text \<open>A run of \<open>otlp_export_span\<close> calls on one exporter: the return values in call
  order and the exporter afterwards.\<close>

fun export_spans :: "otlp_exporter_t \<Rightarrow> otlp_span_t list \<Rightarrow> int list \<times> otlp_exporter_t" where
  "export_spans e [] = ([], e)"
| "export_spans e (sp # sps) =
     (case otlp_export_span (Some e) (Some sp) of
        (rc, Some e') \<Rightarrow> (let (rcs, e'') = export_spans e' sps in (rc # rcs, e''))
      | (rc, None) \<Rightarrow> ([rc], e))"

subsection \<open>The wire structs of a span (do\_export)\<close>

text \<open>\<open>ProtobufCBinaryData\<close>: a length and a data pointer.\<close>

record binary_data =
  len :: nat
  data :: "8 word list option"

record proto_status =
  code :: span_status_code_t
  message :: "string option"

record proto_span =
  ps_trace_id :: binary_data
  ps_span_id :: binary_data
  ps_parent_span_id :: binary_data
  ps_name :: "string option"
  ps_kind :: span_kind_t
  ps_start_time_unix_nano :: "64 word"
  ps_end_time_unix_nano :: "64 word"
  ps_attributes :: "attribute_t list option"
  ps_n_attributes :: nat
  ps_status :: proto_status

text \<open>\<open>malloc(n)\<close> bytes hold whatever the heap held: \<open>heap k\<close> for cell \<open>k\<close>.\<close>

definition malloc_bytes :: "(nat \<Rightarrow> 8 word) \<Rightarrow> nat \<Rightarrow> 8 word list" where
  "malloc_bytes heap n = map heap [0..<n]"

definition present :: "string option \<Rightarrow> nat \<Rightarrow> bool" where
  "present s n = (case s of None \<Rightarrow> False | Some str \<Rightarrow> strlen str \<ge> n)"

definition id_text :: "string option \<Rightarrow> string" where
  "id_text s = (case s of None \<Rightarrow> [] | Some str \<Rightarrow> str)"

text \<open>What a pending copy has of the span it was made from: every field
  \<open>otlp_export_span\<close> assigns (a NULL \<open>trace_id\<close>, \<open>span_id\<close> or \<open>name\<close> becomes the
  empty string).\<close>

definition copied_from :: "otlp_span_t \<Rightarrow> otlp_span_t \<Rightarrow> bool" where
  "copied_from orig c =
     (trace_id c = Some (id_text (trace_id orig)) \<and>
      span_id c = Some (id_text (span_id orig)) \<and>
      parent_span_id c = parent_span_id orig \<and>
      name c = Some (id_text (name orig)) \<and>
      kind c = kind orig \<and>
      start_time_nanos c = start_time_nanos orig \<and>
      end_time_nanos c = end_time_nanos orig \<and>
      status_code c = status_code orig \<and>
      (attributes c, attribute_count c) =
        copy_attributes (attribute_count orig) (attributes orig))"

text \<open>The body of the conversion loop of \<open>do_export\<close> for one span. The return value
  of \<open>hex_to_bytes\<close> is not looked at.\<close>

definition convert_span :: "(nat \<Rightarrow> 8 word) \<Rightarrow> otlp_span_t \<Rightarrow> proto_span" where
  "convert_span heap sp =
     \<lparr>ps_trace_id =
        \<lparr>len = 16,
         data = Some (if present (trace_id sp) 32
                      then snd (hex_to_bytes (id_text (trace_id sp)) (malloc_bytes heap 16) 16)
                      else replicate 16 0)\<rparr>,
      ps_span_id =
        \<lparr>len = 8,
         data = Some (if present (span_id sp) 16
                      then snd (hex_to_bytes (id_text (span_id sp)) (malloc_bytes heap 8) 8)
                      else replicate 8 0)\<rparr>,
      ps_parent_span_id =
        (if present (parent_span_id sp) 16
         then \<lparr>len = 8,
               data = Some (snd (hex_to_bytes (id_text (parent_span_id sp)) (malloc_bytes heap 8) 8))\<rparr>
         else \<lparr>len = 0, data = None\<rparr>),
      ps_name = name sp,
      ps_kind = kind sp,
      ps_start_time_unix_nano = start_time_nanos sp,
      ps_end_time_unix_nano = end_time_nanos sp,
      ps_attributes =
        (if attribute_count sp > 0 \<and> attributes sp \<noteq> None
         then map_option (take (attribute_count sp)) (attributes sp) else None),
      ps_n_attributes =
        (if attribute_count sp > 0 \<and> attributes sp \<noteq> None then attribute_count sp else 0),
      ps_status = \<lparr>code = status_code sp, message = status_message sp\<rparr>\<rparr>"

record export_trace_service_request =
  resource_service_name :: string
  scope_name :: string
  scope_version :: string
  spans :: "proto_span list"

text \<open>\<open>do_export\<close> up to the serialisation: the request it packs and sends, \<open>None\<close>
  when it returns before building one. Its return value is 0 on every path.\<close>

definition do_export ::
  "(nat \<Rightarrow> 8 word) \<Rightarrow> otlp_exporter_t \<Rightarrow> otlp_span_t list \<Rightarrow> nat
     \<Rightarrow> int \<times> export_trace_service_request option" where
  "do_export heap exporter batch count =
     (if count = 0 then (0, None)
      else (0, Some \<lparr>resource_service_name = service_name exporter,
                     scope_name = ''service-f-c'', scope_version = ''1.0.0'',
                     spans = map (convert_span heap) (take count batch)\<rparr>))"

section \<open>Log exporter (otlp\_log\_exporter.h, otlp\_log\_exporter.c)\<close>

datatype log_severity_t =
    LOG_SEVERITY_UNSPECIFIED | LOG_SEVERITY_TRACE | LOG_SEVERITY_DEBUG | LOG_SEVERITY_INFO
  | LOG_SEVERITY_WARN | LOG_SEVERITY_ERROR | LOG_SEVERITY_FATAL

fun severity_number :: "log_severity_t \<Rightarrow> nat" where
  "severity_number LOG_SEVERITY_UNSPECIFIED = 0"
| "severity_number LOG_SEVERITY_TRACE = 1"
| "severity_number LOG_SEVERITY_DEBUG = 5"
| "severity_number LOG_SEVERITY_INFO = 9"
| "severity_number LOG_SEVERITY_WARN = 13"
| "severity_number LOG_SEVERITY_ERROR = 17"
| "severity_number LOG_SEVERITY_FATAL = 21"

fun severity_text :: "log_severity_t \<Rightarrow> string" where
  "severity_text LOG_SEVERITY_TRACE = ''TRACE''"
| "severity_text LOG_SEVERITY_DEBUG = ''DEBUG''"
| "severity_text LOG_SEVERITY_INFO = ''INFO''"
| "severity_text LOG_SEVERITY_WARN = ''WARN''"
| "severity_text LOG_SEVERITY_ERROR = ''ERROR''"
| "severity_text LOG_SEVERITY_FATAL = ''FATAL''"
| "severity_text LOG_SEVERITY_UNSPECIFIED = ''UNSPECIFIED''"

record otlp_log_record_t =
  log_trace_id :: "string option"
  log_span_id :: "string option"
  severity :: log_severity_t
  body :: "string option"
  timestamp_nanos :: "64 word"
  log_attributes :: "attribute_t list option"
  log_attribute_count :: nat

record otlp_log_exporter_t =
  log_service_name :: string
  pending_records :: "otlp_log_record_t option list"
  log_pending_count :: nat

definition otlp_log_exporter_create :: "string \<Rightarrow> otlp_log_exporter_t" where
  "otlp_log_exporter_create svc =
     \<lparr>log_service_name = svc, pending_records = replicate MAX_BATCH_SIZE None,
      log_pending_count = 0\<rparr>"

text \<open>The copy \<open>otlp_export_log\<close> makes ("Copy record data", "Copy attributes").\<close>

definition copy_log_record :: "otlp_log_record_t \<Rightarrow> otlp_log_record_t" where
  "copy_log_record r =
     (let (attrs, n) = copy_attributes (log_attribute_count r) (log_attributes r) in
      \<lparr>log_trace_id = (case log_trace_id r of Some s \<Rightarrow> Some s | None \<Rightarrow> None),
       log_span_id = (case log_span_id r of Some s \<Rightarrow> Some s | None \<Rightarrow> None),
       severity = severity r,
       body = Some (case body r of Some s \<Rightarrow> s | None \<Rightarrow> ''''),
       timestamp_nanos = timestamp_nanos r,
       log_attributes = attrs,
       log_attribute_count = n\<rparr>)"

definition otlp_export_log ::
  "otlp_log_exporter_t option \<Rightarrow> otlp_log_record_t option
     \<Rightarrow> int \<times> otlp_log_exporter_t option" where
  "otlp_export_log exporter record =
     (case (exporter, record) of
        (Some e, Some r) \<Rightarrow>
          if log_pending_count e \<ge> MAX_BATCH_SIZE then (- 1, Some e)
          else (0, Some (e\<lparr>pending_records :=
                             (pending_records e)[log_pending_count e := Some (copy_log_record r)],
                           log_pending_count := log_pending_count e + 1\<rparr>))
      | _ \<Rightarrow> (- 1, exporter))"

record proto_log_record =
  pl_trace_id :: binary_data
  pl_span_id :: binary_data
  pl_time_unix_nano :: "64 word"
  pl_severity_number :: nat
  pl_severity_text :: string
  pl_body :: "string option"
  pl_attributes :: "attribute_t list option"
  pl_n_attributes :: nat

text \<open>The body of the conversion loop of the log exporter's \<open>do_export\<close> for one
  record.\<close>

definition convert_log_record :: "(nat \<Rightarrow> 8 word) \<Rightarrow> otlp_log_record_t \<Rightarrow> proto_log_record" where
  "convert_log_record heap r =
     \<lparr>pl_trace_id =
        (if present (log_trace_id r) 32
         then \<lparr>len = 16,
               data = Some (snd (hex_to_bytes (id_text (log_trace_id r)) (malloc_bytes heap 16) 16))\<rparr>
         else \<lparr>len = 0, data = None\<rparr>),
      pl_span_id =
        (if present (log_span_id r) 16
         then \<lparr>len = 8,
               data = Some (snd (hex_to_bytes (id_text (log_span_id r)) (malloc_bytes heap 8) 8))\<rparr>
         else \<lparr>len = 0, data = None\<rparr>),
      pl_time_unix_nano = timestamp_nanos r,
      pl_severity_number = severity_number (severity r),
      pl_severity_text = severity_text (severity r),
      pl_body = body r,
      pl_attributes =
        (if log_attribute_count r > 0 \<and> log_attributes r \<noteq> None
         then map_option (take (log_attribute_count r)) (log_attributes r) else None),
      pl_n_attributes =
        (if log_attribute_count r > 0 \<and> log_attributes r \<noteq> None
         then log_attribute_count r else 0)\<rparr>"

section \<open>Metrics exporter (otlp\_metrics\_exporter.h, otlp\_metrics\_exporter.c)\<close>

text \<open>
  A \<open>double\<close> is modelled by the real number it stands for; rounding, infinities and
  NaN are outside the model. The union of \<open>int_value\<close> and \<open>double_value\<close> with its
  \<open>is_double\<close> flag is the datatype \<open>number\<close>: the member written is the member read.
\<close>

datatype metric_type_t = METRIC_TYPE_COUNTER | METRIC_TYPE_GAUGE | METRIC_TYPE_HISTOGRAM

datatype number = Int_value "64 word" | Double_value real

record metric_data_point_t =
  dp_timestamp_nanos :: "64 word"
  dp_number :: number
  dp_attributes :: "attribute_t list option"
  dp_attribute_count :: nat

record histogram_data_point_t =
  h_timestamp_nanos :: "64 word"
  h_count :: "64 word"
  h_sum :: real
  bucket_counts :: "real list option"
  explicit_bounds :: "real list option"
  bucket_count :: nat

text \<open>\<open>otlp_metric_t\<close>. A point array is read only below its count, and without a
  test for NULL: each is modelled by the list of its elements (empty for the NULL of a
  count of zero) and holds at least as many as its count says.\<close>

record otlp_metric_t =
  m_name :: string
  m_description :: string
  m_unit :: string
  m_type :: metric_type_t
  data_points :: "metric_data_point_t list"
  data_point_count :: nat
  histogram_points :: "histogram_data_point_t list"
  histogram_point_count :: nat

record otlp_metrics_exporter_t =
  metrics_service_name :: string

text \<open>The conversion \<open>(uint64_t)x\<close> of a double discards the fraction. C defines
  it when the truncated value fits the type, that is for \<open>-1 < x < 2^64\<close>; for any
  other \<open>x\<close> the behaviour is undefined, and the model gives \<open>None\<close>: it says nothing
  of what the program does then.\<close>

definition truncated :: "real \<Rightarrow> int" where
  "truncated x = (if x \<ge> 0 then \<lfloor>x\<rfloor> else \<lceil>x\<rceil>)"

definition uint64_of_double :: "real \<Rightarrow> 64 word option" where
  "uint64_of_double x =
     (if - 1 < x \<and> x < 2 ^ 64 then Some (word_of_int (truncated x)) else None)"

record number_data_point =
  ndp_time_unix_nano :: "64 word"
  ndp_number :: number
  ndp_attributes :: "attribute_t list option"
  ndp_n_attributes :: nat

text \<open>The cells of \<open>bucket_counts\<close> are written by that conversion: a cell is
  \<open>None\<close> where the conversion that fills it is undefined.\<close>

record histogram_data_point =
  hdp_time_unix_nano :: "64 word"
  hdp_count :: "64 word"
  hdp_sum :: real
  hdp_has_sum :: bool
  hdp_bucket_counts :: "64 word option list option"
  hdp_n_bucket_counts :: nat
  hdp_explicit_bounds :: "real list option"
  hdp_n_explicit_bounds :: nat

datatype metric_data =
    No_data
  | Data_sum bool "number_data_point list"
  | Data_gauge "number_data_point list"
  | Data_histogram "histogram_data_point list"

record proto_metric =
  pm_name :: string
  pm_description :: string
  pm_unit :: string
  pm_data :: metric_data

text \<open>A data point of a counter: value and attributes.\<close>

definition convert_sum_point :: "metric_data_point_t \<Rightarrow> number_data_point" where
  "convert_sum_point dp =
     \<lparr>ndp_time_unix_nano = dp_timestamp_nanos dp,
      ndp_number = dp_number dp,
      ndp_attributes =
        (if dp_attribute_count dp > 0 \<and> dp_attributes dp \<noteq> None
         then map_option (take (dp_attribute_count dp)) (dp_attributes dp) else None),
      ndp_n_attributes =
        (if dp_attribute_count dp > 0 \<and> dp_attributes dp \<noteq> None
         then dp_attribute_count dp else 0)\<rparr>"

text \<open>A data point of a gauge: the value only.\<close>

definition convert_gauge_point :: "metric_data_point_t \<Rightarrow> number_data_point" where
  "convert_gauge_point dp =
     \<lparr>ndp_time_unix_nano = dp_timestamp_nanos dp,
      ndp_number = dp_number dp,
      ndp_attributes = None,
      ndp_n_attributes = 0\<rparr>"

text \<open>A data point of a histogram. The bounds pointer is passed on as it is.\<close>

definition convert_histogram_point :: "histogram_data_point_t \<Rightarrow> histogram_data_point" where
  "convert_histogram_point dp =
     (let base = \<lparr>hdp_time_unix_nano = h_timestamp_nanos dp,
                  hdp_count = h_count dp,
                  hdp_sum = h_sum dp,
                  hdp_has_sum = True,
                  hdp_bucket_counts = None,
                  hdp_n_bucket_counts = 0,
                  hdp_explicit_bounds = None,
                  hdp_n_explicit_bounds = 0\<rparr>
      in case bucket_counts dp of
           None \<Rightarrow> base
         | Some counts \<Rightarrow>
             if bucket_count dp > 0 then
               (let with_counts =
                      base\<lparr>hdp_bucket_counts :=
                             Some (map uint64_of_double (take (bucket_count dp) counts)),
                           hdp_n_bucket_counts := bucket_count dp\<rparr>
                in case explicit_bounds dp of
                     None \<Rightarrow> with_counts
                   | Some bounds \<Rightarrow>
                       with_counts\<lparr>hdp_explicit_bounds := Some bounds,
                                   hdp_n_explicit_bounds :=
                                     (if bucket_count dp > 0
                                      then size_sub (bucket_count dp) 1 else 0)\<rparr>)
             else base)"

text \<open>The body of the conversion loop of \<open>otlp_export_metrics\<close> for one metric.\<close>

definition convert_metric :: "otlp_metric_t \<Rightarrow> proto_metric" where
  "convert_metric m =
     \<lparr>pm_name = m_name m, pm_description = m_description m, pm_unit = m_unit m,
      pm_data =
        (if m_type m = METRIC_TYPE_COUNTER \<and> data_point_count m > 0 then
           Data_sum True (map convert_sum_point (take (data_point_count m) (data_points m)))
         else if m_type m = METRIC_TYPE_GAUGE \<and> data_point_count m > 0 then
           Data_gauge (map convert_gauge_point (take (data_point_count m) (data_points m)))
         else if m_type m = METRIC_TYPE_HISTOGRAM \<and> histogram_point_count m > 0 then
           Data_histogram
             (map convert_histogram_point
                (take (histogram_point_count m) (histogram_points m)))
         else No_data)\<rparr>"

text \<open>What the unary call to the collector comes to: \<open>grpc_channel_create_call\<close>
  returns NULL, \<open>grpc_call_start_batch\<close> fails, or the completion queue yields an
  event before the deadline (its type, its success flag and the status received).\<close>

datatype call_outcome =
    Call_not_created
  | Batch_not_started
  | Event grpc_completion_type int grpc_status_code

record export_metrics_service_request =
  mr_resource_service_name :: string
  mr_scope_name :: string
  mr_scope_version :: string
  mr_metrics :: "proto_metric list"

text \<open>\<open>otlp_export_metrics\<close>: the return value and the request it builds (\<open>None\<close> when
  it returns before it builds one).\<close>

definition otlp_export_metrics ::
  "call_outcome \<Rightarrow> otlp_metrics_exporter_t option \<Rightarrow> otlp_metric_t list option \<Rightarrow> nat
     \<Rightarrow> int \<times> export_metrics_service_request option" where
  "otlp_export_metrics outcome exporter metrics count =
     (case (exporter, metrics) of
        (Some e, Some ms) \<Rightarrow>
          if count = 0 then (- 1, None)
          else
            (let request = \<lparr>mr_resource_service_name = metrics_service_name e,
                            mr_scope_name = ''service-f-c'', mr_scope_version = ''1.0.0'',
                            mr_metrics = map convert_metric (take count ms)\<rparr>
             in case outcome of
                  Call_not_created \<Rightarrow> (- 1, Some request)
                | Batch_not_started \<Rightarrow> (- 1, Some request)
                | Event ty success status \<Rightarrow>
                    if ty = GRPC_OP_COMPLETE \<and> success \<noteq> 0
                    then (if status \<noteq> GRPC_STATUS_OK then (- 1, Some request)
                          else (0, Some request))
                    else (- 1, Some request))
      | _ \<Rightarrow> (- 1, None))"

section \<open>The metrics tick (metrics\_export\_thread and record\_request\_metrics in main.c)\<close>

record metrics_state =
  g_request_count :: "64 word"
  g_total_duration_ms :: real

definition record_request_metrics :: "real \<Rightarrow> metrics_state \<Rightarrow> metrics_state" where
  "record_request_metrics duration_ms st =
     st\<lparr>g_request_count := g_request_count st + 1,
        g_total_duration_ms := g_total_duration_ms st + duration_ms\<rparr>"

datatype tick_result = Loop_break | Loop_continue

text \<open>
  One round of the loop of \<open>metrics_export_thread\<close> after its \<open>sleep(10)\<close>, at time
  \<open>timestamp_nanos\<close>: whether the loop goes on, the accumulator afterwards, and the
  arguments of the call of \<open>otlp_export_metrics\<close> it makes, if it makes one.
\<close>

definition metrics_export_round ::
  "bool \<Rightarrow> otlp_metrics_exporter_t option \<Rightarrow> 64 word \<Rightarrow> metrics_state
     \<Rightarrow> tick_result \<times> metrics_state \<times> (otlp_metric_t list \<times> nat) option" where
  "metrics_export_round shutdown exporter timestamp st =
     (if shutdown \<or> exporter = None then (Loop_break, st, None)
      else
        (let request_count = g_request_count st;
             total_duration = g_total_duration_ms st
         in if request_count = 0 then (Loop_continue, st, None)
            else
              (let counter_dp = \<lparr>dp_timestamp_nanos = timestamp,
                                 dp_number = Int_value request_count,
                                 dp_attributes = None, dp_attribute_count = 0\<rparr>;
                   gauge_dp = \<lparr>dp_timestamp_nanos = timestamp,
                               dp_number = Double_value
                                 (if request_count > 0
                                  then total_duration / real (unat request_count) else 0),
                               dp_attributes = None, dp_attribute_count = 0\<rparr>;
                   metrics =
                     [\<lparr>m_name = ''grpcarch_service_f_requests_total'',
                       m_description = ''Total number of requests'',
                       m_unit = ''1'', m_type = METRIC_TYPE_COUNTER,
                       data_points = [counter_dp], data_point_count = 1,
                       histogram_points = [], histogram_point_count = 0\<rparr>,
                      \<lparr>m_name = ''grpcarch_service_f_request_duration_ms'',
                       m_description = ''Average request duration in milliseconds'',
                       m_unit = ''ms'', m_type = METRIC_TYPE_GAUGE,
                       data_points = [gauge_dp], data_point_count = 1,
                       histogram_points = [], histogram_point_count = 0\<rparr>]
               in (Loop_continue, st, Some (metrics, 2)))))"

section \<open>Inputs the theorems are also run on\<close>



definition example_log_record :: otlp_log_record_t where
  "example_log_record =
     \<lparr>log_trace_id = None, log_span_id = Some ''abc'', severity = LOG_SEVERITY_INFO,
      body = Some ''started'', timestamp_nanos = 5, log_attributes = None,
      log_attribute_count = 0\<rparr>"

definition example_root_span :: otlp_span_t where
  "example_root_span =
     \<lparr>trace_id = Some ''aaaaaaaaaaaaaaaaaaaaaaaaaaaaaaaa'', span_id = Some ''bbbbbbbbbbbbbbbb'',
      parent_span_id = None, name = Some ''Test'', kind = SPAN_KIND_SERVER,
      start_time_nanos = 1, end_time_nanos = 2, status_code = SPAN_STATUS_OK,
      status_message = None, attributes = None, attribute_count = 0\<rparr>"

definition failed_span :: otlp_span_t where
  "failed_span =
     \<lparr>trace_id = Some ''aaaaaaaaaaaaaaaaaaaaaaaaaaaaaaaa'', span_id = Some ''bbbbbbbbbbbbbbbb'',
      parent_span_id = None, name = None, kind = SPAN_KIND_SERVER,
      start_time_nanos = 1, end_time_nanos = 2, status_code = SPAN_STATUS_ERROR,
      status_message = Some ''boom'', attributes = None, attribute_count = 0\<rparr>"

definition w3c_metadata :: "grpc_metadata list" where
  "w3c_metadata =
     [(''content-type'', ''application/grpc''),
      (''traceparent'', ''00-4bf92f3577b34da6a3ce929d0e0e4736-00f067aa0ba902b7-01'')]"

definition short_metadata :: "grpc_metadata list" where
  "short_metadata = [(''traceparent'', ''00-4bf92f3577b34da6a3ce929d0e0e4736-00f067aa'')]"

section \<open>Properties of the endpoint parser\<close>

lemma strchr_None: "strchr s c = None \<longleftrightarrow> c \<notin> set s"
  by (induction s) auto

lemma strchr_Some:
  "strchr s c = Some n \<Longrightarrow> s = take n s @ c # drop (n + 1) s \<and> c \<notin> set (take n s)"
proof (induction s arbitrary: n)
  case Nil
  then show ?case by simp
next
  case (Cons x xs)
  show ?case
  proof (cases "x = c")
    case True
    with Cons.prems show ?thesis by simp
  next
    case False
    with Cons.prems obtain m where m: "strchr xs c = Some m" "n = Suc m"
      by auto
    from Cons.IH [OF m(1)] False m(2) show ?thesis by simp
  qed
qed

lemma strchr_first:
  assumes "c \<notin> set h"
  shows "strchr (h @ c # p) c = Some (length h)"
  using assms by (induction h) auto

lemma skip_scheme_http: "skip_scheme (''http://'' @ r) = r"
  by (simp add: skip_scheme_def strncmp_eq_def)

lemma skip_scheme_https: "skip_scheme (''https://'' @ r) = r"
  by (simp add: skip_scheme_def strncmp_eq_def)

lemma strncmp_eq_prefix: "length lit = n \<Longrightarrow> strncmp_eq s lit n \<longleftrightarrow> prefix lit s"
  by (auto simp: strncmp_eq_def prefix_def) (metis append_take_drop_id)

lemma skip_scheme_other:
  "\<not> prefix ''http://'' e \<Longrightarrow> \<not> prefix ''https://'' e \<Longrightarrow> skip_scheme e = e"
  by (simp add: skip_scheme_def strncmp_eq_prefix)

text \<open>
  Claim C2, as the code has it. The parser strips one leading \<open>http://\<close> (or, failing
  that, one leading \<open>https://\<close>) and leaves any other endpoint as it is. It splits the
  remainder at its \<^emph>\<open>first\<close> colon: when the remainder is \<open>h\<close>, a colon and \<open>p\<close>, with
  no colon in \<open>h\<close>, the host is \<open>h\<close> and the port is \<open>p\<close>, whatever colons \<open>p\<close> holds.
  When the remainder has no colon the host is the whole remainder and the port is
  \<open>4317\<close>. The function always returns 0.
\<close>

theorem parse_endpoint_first_colon:
  "skip_scheme (''http://'' @ r) = r \<and>
   skip_scheme (''https://'' @ r) = r \<and>
   (\<not> prefix ''http://'' e \<and> \<not> prefix ''https://'' e \<longrightarrow> skip_scheme e = e) \<and>
   (skip_scheme e = h @ CHR '':'' # p \<and> CHR '':'' \<notin> set h \<longrightarrow> parse_endpoint e = (0, h, p)) \<and>
   (CHR '':'' \<notin> set (skip_scheme e) \<longrightarrow> parse_endpoint e = (0, skip_scheme e, ''4317''))"
proof (intro conjI impI)
  show "skip_scheme (''http://'' @ r) = r" by (rule skip_scheme_http)
  show "skip_scheme (''https://'' @ r) = r" by (rule skip_scheme_https)
next
  assume "\<not> prefix ''http://'' e \<and> \<not> prefix ''https://'' e"
  then show "skip_scheme e = e" by (simp add: skip_scheme_other)
next
  assume a: "skip_scheme e = h @ CHR '':'' # p \<and> CHR '':'' \<notin> set h"
  then have "strchr (skip_scheme e) CHR '':'' = Some (length h)"
    by (simp add: strchr_first)
  with a show "parse_endpoint e = (0, h, p)"
    by (simp add: parse_endpoint_def)
next
  assume "CHR '':'' \<notin> set (skip_scheme e)"
  then have "strchr (skip_scheme e) CHR '':'' = None"
    by (simp add: strchr_None)
  then show "parse_endpoint e = (0, skip_scheme e, ''4317'')"
    by (simp add: parse_endpoint_def)
qed

text \<open>The theorem at the endpoint of the header's example, at one with two colons and at
  a bare host name.\<close>

theorem parse_endpoint_first_colon_witness:
  "skip_scheme ''http://otel-collector:4317'' = ''otel-collector:4317'' \<and>
   parse_endpoint ''http://otel-collector:4317'' = (0, ''otel-collector'', ''4317'') \<and>
   parse_endpoint ''a:b:c'' = (0, ''a'', ''b:c'') \<and>
   parse_endpoint ''localhost'' = (0, ''localhost'', ''4317'')"
  using parse_endpoint_first_colon [of "''otel-collector:4317''" "''http://otel-collector:4317''"
      "''otel-collector''" "''4317''"]
    parse_endpoint_first_colon [of "[]" "''a:b:c''" "''a''" "''b:c''"]
    parse_endpoint_first_colon [of "[]" "''localhost''" "[]" "[]"]
  by (simp add: skip_scheme_def strncmp_eq_def)

text \<open>Claim C2 as stated fails where the remainder holds more than one colon: for the
  IPv6 endpoint \<open>http://[::1]:4317\<close> the code stops at the first colon, so the host is
  \<open>[\<close> and the port \<open>:1]:4317\<close>, while the split on the last colon is \<open>[::1]\<close> and
  \<open>4317\<close>.\<close>

theorem parse_endpoint_last_colon_counterexample:
  "parse_endpoint ''http://[::1]:4317'' = (0, ''['', '':1]:4317'') \<and>
   split_last_colon (skip_scheme ''http://[::1]:4317'') = (''[::1]'', ''4317'') \<and>
   snd (parse_endpoint ''http://[::1]:4317'') \<noteq> split_last_colon (skip_scheme ''http://[::1]:4317'')"
  by (simp add: parse_endpoint_def skip_scheme_def strncmp_eq_def split_last_colon_def)

section \<open>Properties of the server loop\<close>

lemma strstr_sublist: "strstr h n \<noteq> None \<longleftrightarrow> sublist n h"
  by (induction h) (auto simp: sublist_Cons_right)

lemma strstr_contains:
  "strstr h n \<noteq> None \<longleftrightarrow> (\<exists>pre post. h = pre @ n @ post)"
proof -
  have "strstr h n \<noteq> None \<longleftrightarrow> sublist n h"
    by (rule strstr_sublist)
  then show ?thesis
    unfolding sublist_def .
qed

lemma main_loop_call_arrival:
  assumes "pc s = Main_loop" and "\<not> g_shutdown s" and "pending_ctx s = Some pending"
    and "ev_type (event d) = GRPC_OP_COMPLETE" and "ev_success (event d) \<noteq> 0"
    and "ev_tag (event d) = request_id pending"
  shows "server_step req_ok s d =
     (let id = request_counter s + 1;
          ctx = pending\<lparr>call_details_method := arrived_method d,
                         request_metadata := arrived_metadata d\<rparr>;
          known = (strstr (arrived_method d) ''FetchLegacyData'' \<noteq> None)
      in s\<lparr>pc := (if known then Wait_message ctx else Wait_status ctx),
           pending_ctx := (if req_ok id
              then Some \<lparr>request_id = id, call_details_method = [], request_metadata = []\<rparr>
              else None),
           request_counter := id,
           actions := actions s @ [Request_call id,
              if known then Start_batch (request_id pending) [GRPC_OP_RECV_MESSAGE] 1
              else Start_batch (request_id pending)
                     [GRPC_OP_SEND_INITIAL_METADATA 0,
                      GRPC_OP_SEND_STATUS_FROM_SERVER GRPC_STATUS_UNIMPLEMENTED
                        ''Method not implemented''] 3]\<rparr>)"
  using assms
  by (simp add: server_step_def main_loop_body_def request_call_def emit_def Let_def)

lemma wait_status_drops:
  assumes "pc s = Wait_status ctx" and "\<forall>d \<in> set pre. \<not> wait_over 3 (event d)"
  shows "run_server_loop req_ok s pre = s"
  using assms
  by (induction pre arbitrary: s) (simp_all add: run_server_loop_def server_step_def)

lemma wait_status_done:
  assumes "pc s = Wait_status ctx" and "wait_over 3 (event d)"
  shows "server_step req_ok s d =
           s\<lparr>pc := Main_loop, actions := actions s @ [Cleanup_call_context (request_id ctx)]\<rparr>"
  using assms by (simp add: server_step_def emit_def)


text \<open>
  Claim C9. The loop has taken the event that completes the pending request
  (\<open>GRPC_OP_COMPLETE\<close>, success, the tag of \<open>pending_ctx\<close>). It goes on to receive the
  message, and then enters \<open>handle_fetch_legacy_data\<close>, exactly when the method name
  of the call contains \<open>FetchLegacyData\<close> somewhere; it sends the UNIMPLEMENTED status
  exactly when the name does not contain it. Nothing else of the name is compared.
\<close>

theorem fetch_legacy_data_dispatch_by_substring:
  assumes "pc s = Main_loop" and "\<not> g_shutdown s" and "pending_ctx s = Some pending"
    and "ev_type (event d) = GRPC_OP_COMPLETE" and "ev_success (event d) \<noteq> 0"
    and "ev_tag (event d) = request_id pending"
  defines "ctx \<equiv> pending\<lparr>call_details_method := arrived_method d,
                            request_metadata := arrived_metadata d\<rparr>"
  defines "contains \<equiv> (\<exists>pre post. arrived_method d = pre @ ''FetchLegacyData'' @ post)"
  shows "(pc (server_step req_ok s d) = Wait_message ctx \<longleftrightarrow> contains) \<and>
         (pc (server_step req_ok s d) = Wait_status ctx \<longleftrightarrow> \<not> contains) \<and>
         (Handle_fetch_legacy_data (request_id pending)
            \<in> set (actions (run_server_loop req_ok (s\<lparr>actions := []\<rparr>) [d, batch_done 1]))
          \<longleftrightarrow> contains) \<and>
         (Start_batch (request_id pending)
            [GRPC_OP_SEND_INITIAL_METADATA 0,
             GRPC_OP_SEND_STATUS_FROM_SERVER GRPC_STATUS_UNIMPLEMENTED ''Method not implemented''] 3
            \<in> set (actions (run_server_loop req_ok (s\<lparr>actions := []\<rparr>) [d, batch_done 1]))
          \<longleftrightarrow> \<not> contains)"
proof -
  have k: "strstr (arrived_method d) ''FetchLegacyData'' \<noteq> None \<longleftrightarrow> contains"
    unfolding contains_def by (rule strstr_contains)
  have step: "server_step req_ok s d = (let id = request_counter s + 1 in
      s\<lparr>pc := (if contains then Wait_message ctx else Wait_status ctx),
        pending_ctx := (if req_ok id
           then Some \<lparr>request_id = id, call_details_method = [], request_metadata = []\<rparr>
           else None),
        request_counter := id,
        actions := actions s @ [Request_call id,
           if contains then Start_batch (request_id pending) [GRPC_OP_RECV_MESSAGE] 1
           else Start_batch (request_id pending)
                  [GRPC_OP_SEND_INITIAL_METADATA 0,
                   GRPC_OP_SEND_STATUS_FROM_SERVER GRPC_STATUS_UNIMPLEMENTED
                     ''Method not implemented''] 3]\<rparr>)"
    using main_loop_call_arrival [OF assms(1-6), of req_ok] k
    by (simp add: Let_def ctx_def)
  have s0: "pc (s\<lparr>actions := []\<rparr>) = Main_loop" "\<not> g_shutdown (s\<lparr>actions := []\<rparr>)"
    "pending_ctx (s\<lparr>actions := []\<rparr>) = Some pending"
    using assms(1-3) by simp_all
  have step0: "server_step req_ok (s\<lparr>actions := []\<rparr>) d = (let id = request_counter s + 1 in
      s\<lparr>pc := (if contains then Wait_message ctx else Wait_status ctx),
        pending_ctx := (if req_ok id
           then Some \<lparr>request_id = id, call_details_method = [], request_metadata = []\<rparr>
           else None),
        request_counter := id,
        actions := [Request_call id,
           if contains then Start_batch (request_id pending) [GRPC_OP_RECV_MESSAGE] 1
           else Start_batch (request_id pending)
                  [GRPC_OP_SEND_INITIAL_METADATA 0,
                   GRPC_OP_SEND_STATUS_FROM_SERVER GRPC_STATUS_UNIMPLEMENTED
                     ''Method not implemented''] 3]\<rparr>)"
    using main_loop_call_arrival [OF s0 assms(4-6), of req_ok] k
    by (simp add: Let_def ctx_def)
  have r: "run_server_loop req_ok (s\<lparr>actions := []\<rparr>) [d, batch_done 1] =
      server_step req_ok (server_step req_ok (s\<lparr>actions := []\<rparr>) d) (batch_done 1)"
    by (simp add: run_server_loop_def)
  have rid: "request_id ctx = request_id pending"
    by (simp add: ctx_def)
  have p1: "pc (server_step req_ok s d) = Wait_message ctx \<longleftrightarrow> contains"
    by (simp add: step Let_def)
  have p2: "pc (server_step req_ok s d) = Wait_status ctx \<longleftrightarrow> \<not> contains"
    by (simp add: step Let_def)
  have p3: "Handle_fetch_legacy_data (request_id pending)
            \<in> set (actions (run_server_loop req_ok (s\<lparr>actions := []\<rparr>) [d, batch_done 1]))
          \<longleftrightarrow> contains"
    unfolding r step0
    by (simp add: Let_def server_step_def wait_over_def batch_done_def emit_def rid)
  have p4: "Start_batch (request_id pending)
            [GRPC_OP_SEND_INITIAL_METADATA 0,
             GRPC_OP_SEND_STATUS_FROM_SERVER GRPC_STATUS_UNIMPLEMENTED ''Method not implemented''] 3
            \<in> set (actions (run_server_loop req_ok (s\<lparr>actions := []\<rparr>) [d, batch_done 1]))
          \<longleftrightarrow> \<not> contains"
    unfolding r step0
    by (simp add: Let_def server_step_def wait_over_def batch_done_def emit_def rid)
  from p1 p2 p3 p4 show ?thesis by blast
qed


text \<open>Claim C9 at two names: one with characters after \<open>FetchLegacyData\<close> is served
  by the handler, one that stops short of it is not.\<close>

theorem fetch_legacy_data_dispatch_witness:
  "pc (server_step (\<lambda>_. True) (server_start (\<lambda>_. True))
         (call_arrives 1 ''/grpcarch.ServiceF/FetchLegacyDataV2'' [])) =
     Wait_message \<lparr>request_id = 1,
                   call_details_method = ''/grpcarch.ServiceF/FetchLegacyDataV2'',
                   request_metadata = []\<rparr> \<and>
   pc (server_step (\<lambda>_. True) (server_start (\<lambda>_. True))
         (call_arrives 1 ''/grpcarch.ServiceF/FetchLegacy'' [])) =
     Wait_status \<lparr>request_id = 1,
                  call_details_method = ''/grpcarch.ServiceF/FetchLegacy'',
                  request_metadata = []\<rparr>"
proof -
  let ?s = "server_start (\<lambda>_. True)"
  let ?p = "\<lparr>request_id = 1, call_details_method = [], request_metadata = []\<rparr>"
  have s: "pc ?s = Main_loop" "\<not> g_shutdown ?s" "pending_ctx ?s = Some ?p"
    by (simp_all add: server_start_def request_call_def)
  have yes: "\<exists>pre post. ''/grpcarch.ServiceF/FetchLegacyDataV2'' = pre @ ''FetchLegacyData'' @ post"
    by (rule exI [of _ "''/grpcarch.ServiceF/''"], rule exI [of _ "''V2''"]) simp
  have "strstr ''/grpcarch.ServiceF/FetchLegacy'' ''FetchLegacyData'' = None"
    by simp
  then have no: "\<not> (\<exists>pre post. ''/grpcarch.ServiceF/FetchLegacy'' = pre @ ''FetchLegacyData'' @ post)"
    using strstr_contains [of "''/grpcarch.ServiceF/FetchLegacy''" "''FetchLegacyData''"] by simp
  show ?thesis
    using fetch_legacy_data_dispatch_by_substring
        [of ?s ?p "call_arrives 1 ''/grpcarch.ServiceF/FetchLegacyDataV2'' []" "\<lambda>_. True"]
      fetch_legacy_data_dispatch_by_substring
        [of ?s ?p "call_arrives 1 ''/grpcarch.ServiceF/FetchLegacy'' []" "\<lambda>_. True"]
      s yes no
    by (simp add: call_arrives_def)
qed

text \<open>At the head of its loop the server stays as it is until the pending request
  completes or the queue shuts down.\<close>

lemma main_loop_waits:
  assumes "pc s = Main_loop" and "\<not> g_shutdown s" and "pending_ctx s = Some pending"
    and "\<forall>d \<in> set ds. ev_type (event d) \<noteq> GRPC_QUEUE_SHUTDOWN \<and>
           \<not> (ev_type (event d) = GRPC_OP_COMPLETE \<and> ev_success (event d) \<noteq> 0 \<and>
              ev_tag (event d) = request_id pending)"
  shows "run_server_loop req_ok s ds = s"
  using assms(4)
proof (induction ds)
  case Nil
  show ?case by (simp add: run_server_loop_def)
next
  case (Cons d ds)
  from Cons.prems have "server_step req_ok s d = s"
    using assms(1-3) by (auto simp: server_step_def main_loop_body_def Let_def)
  with Cons show ?case
    by (simp add: run_server_loop_def)
qed

text \<open>An unknown method, from any state at the head of the loop: the server requests
  the next call first, starts the batch of initial metadata and the status
  UNIMPLEMENTED, waits for a completion under tag 3, dropping whatever else the queue
  delivers in between, and frees the context. The handler is not entered.\<close>

lemma unknown_method_answered:
  assumes "pc s = Main_loop" and "\<not> g_shutdown s" and "pending_ctx s = Some pending"
    and "ev_type (event d) = GRPC_OP_COMPLETE" and "ev_success (event d) \<noteq> 0"
    and "ev_tag (event d) = request_id pending"
    and unknown: "strstr (arrived_method d) ''FetchLegacyData'' = None"
    and rearmed: "req_ok (request_counter s + 1)"
    and dropped: "\<forall>e \<in> set dropped. \<not> wait_over 3 (event e)"
    and sent: "wait_over 3 (event fin)"
  shows "run_server_loop req_ok s (d # dropped @ [fin]) =
     s\<lparr>pc := Main_loop,
       pending_ctx := Some \<lparr>request_id = request_counter s + 1, call_details_method = [],
                             request_metadata = []\<rparr>,
       request_counter := request_counter s + 1,
       actions := actions s @
           [Request_call (request_counter s + 1),
            Start_batch (request_id pending)
              [GRPC_OP_SEND_INITIAL_METADATA 0,
               GRPC_OP_SEND_STATUS_FROM_SERVER GRPC_STATUS_UNIMPLEMENTED ''Method not implemented'']
              3,
            Cleanup_call_context (request_id pending)]\<rparr>"
proof -
  let ?ctx = "pending\<lparr>call_details_method := arrived_method d,
                       request_metadata := arrived_metadata d\<rparr>"
  let ?rearm = "\<lparr>request_id = request_counter s + 1, call_details_method = [],
                  request_metadata = []\<rparr>"
  let ?unimpl = "Start_batch (request_id pending)
              [GRPC_OP_SEND_INITIAL_METADATA 0,
               GRPC_OP_SEND_STATUS_FROM_SERVER GRPC_STATUS_UNIMPLEMENTED ''Method not implemented'']
              3"
  define s1 where "s1 = server_step req_ok s d"
  have s1: "s1 = s\<lparr>pc := Wait_status ?ctx, pending_ctx := Some ?rearm,
                   request_counter := request_counter s + 1,
                   actions := actions s @ [Request_call (request_counter s + 1), ?unimpl]\<rparr>"
    unfolding s1_def
    using main_loop_call_arrival [OF assms(1-6), of req_ok] unknown rearmed
    by (simp add: Let_def)
  have pc1: "pc s1 = Wait_status ?ctx"
    by (simp add: s1)
  have s2: "run_server_loop req_ok s1 dropped = s1"
    using pc1 dropped by (rule wait_status_drops)
  have "run_server_loop req_ok s (d # dropped @ [fin]) =
      server_step req_ok (run_server_loop req_ok s1 dropped) fin"
    by (simp add: run_server_loop_def s1_def)
  then have "run_server_loop req_ok s (d # dropped @ [fin]) =
      s1\<lparr>pc := Main_loop, actions := actions s1 @ [Cleanup_call_context (request_id ?ctx)]\<rparr>"
    using wait_status_done [OF pc1 sent, of req_ok] s2 by simp
  then show ?thesis
    by (simp add: s1)
qed

text \<open>
  Claim C6, at a run of the server from its start. The first call names a method the
  server does not know. The arrival of the second call, which the loop has just
  requested under tag 2, is delivered while the loop waits for the completion of the
  status batch; then comes that completion, then two timeouts. The server requests
  the next call first, sends the status UNIMPLEMENTED, "Method not implemented",
  enters no handler and frees the context, as the claim says. But the wait has thrown
  the arrival of the second call away: the loop is back at its head with the context
  of tag 2 still pending, nothing has been started for that call, and the timeouts
  leave the server as it is. In the run where the same arrival is delivered after the
  completion instead, the second call is taken up: the loop requests a third call and
  starts the receipt of the message.
\<close>

theorem next_call_lost_in_status_wait:
  "run_server_loop (\<lambda>_. True) (server_start (\<lambda>_. True))
      [call_arrives 1 ''/grpcarch.ServiceF/Unknown'' [],
       call_arrives 2 ''/grpcarch.ServiceF/FetchLegacyData'' [],
       batch_done 3, queue_timeout, queue_timeout] =
     \<lparr>pc = Main_loop,
      pending_ctx = Some \<lparr>request_id = 2, call_details_method = [], request_metadata = []\<rparr>,
      request_counter = 2, g_shutdown = False,
      actions =
        [Request_call 1, Request_call 2,
         Start_batch 1
           [GRPC_OP_SEND_INITIAL_METADATA 0,
            GRPC_OP_SEND_STATUS_FROM_SERVER GRPC_STATUS_UNIMPLEMENTED ''Method not implemented'']
           3,
         Cleanup_call_context 1]\<rparr> \<and>
   actions (run_server_loop (\<lambda>_. True) (server_start (\<lambda>_. True))
      [call_arrives 1 ''/grpcarch.ServiceF/Unknown'' [], batch_done 3,
       call_arrives 2 ''/grpcarch.ServiceF/FetchLegacyData'' []]) =
     [Request_call 1, Request_call 2,
      Start_batch 1
        [GRPC_OP_SEND_INITIAL_METADATA 0,
         GRPC_OP_SEND_STATUS_FROM_SERVER GRPC_STATUS_UNIMPLEMENTED ''Method not implemented'']
        3,
      Cleanup_call_context 1,
      Request_call 3, Start_batch 2 [GRPC_OP_RECV_MESSAGE] 1]"
  by (simp add: run_server_loop_def server_start_def request_call_def server_step_def
      main_loop_body_def emit_def wait_over_def call_arrives_def batch_done_def
      queue_timeout_def Let_def)

section \<open>Properties of the metrics exporter and the metrics tick\<close>









text \<open>
  Claim C1, at an accumulator that three requests of 3, 4 and 5 milliseconds have
  filled. The round emits one counter point of value 3 and one gauge point of value
  12 / 3 = 4, as the claim says. It leaves the accumulator at 3 requests and 12
  milliseconds: the loop reads the two fields under the mutex ("Get and reset metrics
  atomically") and never writes them.
\<close>

theorem metrics_round_does_not_reset:
  "metrics_export_round False (Some \<lparr>metrics_service_name = ''service-f''\<rparr>) 1000
     (record_request_metrics 5 (record_request_metrics 4 (record_request_metrics 3
        \<lparr>g_request_count = 0, g_total_duration_ms = 0\<rparr>))) =
   (Loop_continue,
    \<lparr>g_request_count = 3, g_total_duration_ms = 12\<rparr>,
    Some ([\<lparr>m_name = ''grpcarch_service_f_requests_total'',
            m_description = ''Total number of requests'', m_unit = ''1'',
            m_type = METRIC_TYPE_COUNTER,
            data_points = [\<lparr>dp_timestamp_nanos = 1000, dp_number = Int_value 3,
                            dp_attributes = None, dp_attribute_count = 0\<rparr>],
            data_point_count = 1, histogram_points = [], histogram_point_count = 0\<rparr>,
           \<lparr>m_name = ''grpcarch_service_f_request_duration_ms'',
            m_description = ''Average request duration in milliseconds'', m_unit = ''ms'',
            m_type = METRIC_TYPE_GAUGE,
            data_points = [\<lparr>dp_timestamp_nanos = 1000, dp_number = Double_value 4,
                            dp_attributes = None, dp_attribute_count = 0\<rparr>],
            data_point_count = 1, histogram_points = [], histogram_point_count = 0\<rparr>], 2)) \<and>
   g_request_count \<lparr>g_request_count = 3, g_total_duration_ms = 12\<rparr> \<noteq> 0"
  by (simp add: metrics_export_round_def record_request_metrics_def)

section \<open>Properties of the exporters\<close>

text \<open>
  Claim C10. \<open>otlp_export_span\<close> and \<open>otlp_export_log\<close> return -1 for a NULL exporter,
  and return -1 with the exporter as it was for a NULL item; \<open>otlp_export_metrics\<close>
  returns -1, before it builds anything, for a NULL exporter, a NULL metrics array or a
  count of zero.
\<close>

theorem null_arguments_rejected:
  "otlp_export_span None sp = (- 1, None) \<and>
   otlp_export_span e None = (- 1, e) \<and>
   otlp_export_log None r = (- 1, None) \<and>
   otlp_export_log le None = (- 1, le) \<and>
   otlp_export_metrics outcome None ms count = (- 1, None) \<and>
   otlp_export_metrics outcome me None count = (- 1, None) \<and>
   otlp_export_metrics outcome me ms 0 = (- 1, None)"
  by (simp add: otlp_export_span_def otlp_export_log_def otlp_export_metrics_def
      split: option.splits)

text \<open>
  Claim C7. A log record whose \<open>trace_id\<close> is NULL or shorter than 32 characters is
  encoded with a \<open>trace_id\<close> of length 0 and no data; the same holds for its \<open>span_id\<close>
  and 16 characters, and for the \<open>parent_span_id\<close> of a span and 16 characters.
\<close>

theorem absent_identifiers_zero_length:
  "(log_trace_id r = None \<or> (\<exists>t. log_trace_id r = Some t \<and> strlen t < 32) \<longrightarrow>
      pl_trace_id (convert_log_record heap r) = \<lparr>len = 0, data = None\<rparr>) \<and>
   (log_span_id r = None \<or> (\<exists>t. log_span_id r = Some t \<and> strlen t < 16) \<longrightarrow>
      pl_span_id (convert_log_record heap r) = \<lparr>len = 0, data = None\<rparr>) \<and>
   (parent_span_id sp = None \<or> (\<exists>t. parent_span_id sp = Some t \<and> strlen t < 16) \<longrightarrow>
      ps_parent_span_id (convert_span heap sp) = \<lparr>len = 0, data = None\<rparr>)"
  by (auto simp: convert_log_record_def convert_span_def present_def)

text \<open>Claim C7 at a log record with no trace id and a short span id, and at a root span.\<close>

theorem absent_identifiers_zero_length_witness:
  "pl_trace_id (convert_log_record (\<lambda>_. 0) example_log_record) = \<lparr>len = 0, data = None\<rparr> \<and>
   pl_span_id (convert_log_record (\<lambda>_. 0) example_log_record) = \<lparr>len = 0, data = None\<rparr> \<and>
   ps_parent_span_id (convert_span (\<lambda>_. 0) example_root_span) = \<lparr>len = 0, data = None\<rparr>"
  using absent_identifiers_zero_length [of example_log_record "\<lambda>_. 0" example_root_span]
  by (simp add: example_log_record_def example_root_span_def strlen_def c_str_def NUL_def)

section \<open>Properties of the pending batch of the span exporter\<close>

lemma copy_span_copied_from: "copied_from sp (copy_span sp)"
  by (simp add: copied_from_def copy_span_def id_text_def split: prod.splits option.splits)

text \<open>The drain loop moves the first \<open>n\<close> slots and clears them.\<close>

lemma drain_fold:
  "n \<le> length p \<Longrightarrow>
   fold (\<lambda>i (b, p). (b @ [p ! i], p[i := None])) [0..<n] ([], p) =
     (take n p, replicate n None @ drop n p)"
proof (induction n)
  case 0
  then show ?case by simp
next
  case (Suc n)
  then have n: "n < length p" by simp
  have "(replicate n None @ drop n p) ! n = p ! n"
    using n by (simp add: nth_append)
  moreover have "(replicate n None @ drop n p)[n := None] = replicate (Suc n) None @ drop (Suc n) p"
    using n by (simp add: list_update_append replicate_append_same Cons_nth_drop_Suc [symmetric]
        upd_conv_take_nth_drop)
  ultimately show ?case
    using Suc n by (simp add: take_Suc_conv_app_nth)
qed

lemma take_batch_filled:
  assumes "pending_spans e = map Some cs @ replicate (MAX_BATCH_SIZE - length cs) None"
    and "pending_count e = length cs" and "length cs \<le> MAX_BATCH_SIZE"
  shows "take_batch e =
           (map Some cs, e\<lparr>pending_spans := replicate MAX_BATCH_SIZE None, pending_count := 0\<rparr>)"
proof -
  let ?p = "pending_spans e"
  have len: "length cs \<le> length ?p"
    using assms by simp
  have "replicate (length cs) None @ drop (length cs) ?p = replicate MAX_BATCH_SIZE None"
    using assms by (simp add: replicate_add [symmetric])
  moreover have "take (length cs) ?p = map Some cs"
    using assms by simp
  ultimately show ?thesis
    using drain_fold [OF len] assms(2) by (simp add: take_batch_def)
qed

lemma export_spans_filled:
  assumes "pending_spans e = map Some cs @ replicate (MAX_BATCH_SIZE - length cs) None"
    and "pending_count e = length cs" and "length cs + length sps \<le> MAX_BATCH_SIZE"
  shows "export_spans e sps =
     (replicate (length sps) 0,
      e\<lparr>pending_spans := map Some (cs @ map copy_span sps)
                           @ replicate (MAX_BATCH_SIZE - (length cs + length sps)) None,
        pending_count := length cs + length sps\<rparr>)"
  using assms
proof (induction sps arbitrary: e cs)
  case Nil
  then show ?case by simp
next
  case (Cons sp sps)
  let ?e' = "e\<lparr>pending_spans := (pending_spans e)[pending_count e := Some (copy_span sp)],
               pending_count := pending_count e + 1\<rparr>"
  have lt: "length cs < MAX_BATCH_SIZE"
    using Cons.prems(3) by simp
  have step: "otlp_export_span (Some e) (Some sp) = (0, Some ?e')"
    using Cons.prems(2) lt by (simp add: otlp_export_span_def)
  have "MAX_BATCH_SIZE - length cs = Suc (MAX_BATCH_SIZE - Suc (length cs))"
    using lt by simp
  then have p': "pending_spans ?e' = map Some (cs @ [copy_span sp])
      @ replicate (MAX_BATCH_SIZE - length (cs @ [copy_span sp])) None"
    using Cons.prems(1,2) by (simp add: list_update_append)
  have c': "pending_count ?e' = length (cs @ [copy_span sp])"
    using Cons.prems(2) by simp
  have l': "length (cs @ [copy_span sp]) + length sps \<le> MAX_BATCH_SIZE"
    using Cons.prems(3) by simp
  show ?case
    using Cons.IH [OF p' c' l'] step by (simp add: replicate_append_same)
qed

lemma export_spans_created:
  assumes "length sps \<le> MAX_BATCH_SIZE"
  shows "export_spans (otlp_exporter_create svc) sps =
     (replicate (length sps) 0,
      \<lparr>service_name = svc,
       pending_spans = map Some (map copy_span sps) @ replicate (MAX_BATCH_SIZE - length sps) None,
       pending_count = length sps\<rparr>)"
  using export_spans_filled [of "otlp_exporter_create svc" "[]" sps] assms
  by (simp add: otlp_exporter_create_def)

lemma take_batch_created:
  assumes "length sps \<le> MAX_BATCH_SIZE"
  shows "take_batch (snd (export_spans (otlp_exporter_create svc) sps)) =
           (map Some (map copy_span sps), otlp_exporter_create svc)"
proof -
  let ?e1 = "\<lparr>service_name = svc,
       pending_spans = map Some (map copy_span sps) @ replicate (MAX_BATCH_SIZE - length sps) None,
       pending_count = length sps\<rparr>"
  have e1: "snd (export_spans (otlp_exporter_create svc) sps) = ?e1"
    by (simp add: export_spans_created [OF assms])
  have "take_batch ?e1 =
      (map Some (map copy_span sps),
       ?e1\<lparr>pending_spans := replicate MAX_BATCH_SIZE None, pending_count := 0\<rparr>)"
    by (rule take_batch_filled) (use assms in simp_all)
  then show ?thesis
    unfolding e1 by (simp add: otlp_exporter_create_def)
qed

text \<open>
  Claim C3, as the code has it. On an exporter with an empty batch (as
  \<open>otlp_exporter_create\<close> or a drain leaves it), \<open>N \<le> 64\<close> calls of
  \<open>otlp_export_span\<close> all return 0 and leave \<open>N\<close> spans pending. A drain, by
  \<open>otlp_exporter_flush\<close> or by a round of the background thread, then hands
  \<open>do_export\<close> exactly \<open>N\<close> spans in the order of the calls, the \<open>i\<close>-th being the
  copy made of the \<open>i\<close>-th span (\<open>copied_from\<close>), and leaves the batch empty; with
  \<open>N = 0\<close> nothing is handed over. After 64 calls a further call returns -1 and leaves
  the exporter, its 64 pending spans and its count, as it was.
\<close>

theorem batch_fifo_and_capacity:
  fixes svc :: string and sps :: "otlp_span_t list" and extra :: otlp_span_t
  assumes "length sps \<le> 64"
  defines "e0 \<equiv> otlp_exporter_create svc"
  defines "e1 \<equiv> snd (export_spans (otlp_exporter_create svc) sps)"
  shows "fst (export_spans e0 sps) = replicate (length sps) 0 \<and>
         pending_count e1 = length sps \<and>
         (\<exists>cs. list_all2 copied_from sps cs \<and>
            otlp_exporter_flush (Some e1) =
              (0, Some e0, if sps = [] then None else Some (map Some cs)) \<and>
            export_thread_round e1 = (e0, if sps = [] then None else Some (map Some cs))) \<and>
         (length sps = 64 \<longrightarrow> otlp_export_span (Some e1) (Some extra) = (- 1, Some e1))"
proof -
  have n: "length sps \<le> MAX_BATCH_SIZE"
    using assms(1) by (simp add: MAX_BATCH_SIZE_def)
  note filled = export_spans_created [OF n, of svc]
  have rcs: "fst (export_spans e0 sps) = replicate (length sps) 0"
    by (simp add: e0_def filled)
  have cnt: "pending_count e1 = length sps"
    by (simp add: e1_def filled)
  have copies: "list_all2 copied_from sps (map copy_span sps)"
    by (simp add: list_all2_map2 list_all2_same copy_span_copied_from)
  have empty: "e1 = e0" if "sps = []"
    using that by (simp add: e1_def e0_def)
  have drained: "take_batch e1 = (map Some (map copy_span sps), e0)"
    unfolding e1_def e0_def by (rule take_batch_created [OF n])
  have flush: "otlp_exporter_flush (Some e1) =
      (0, Some e0, if sps = [] then None else Some (map Some (map copy_span sps)))"
    using cnt drained empty by (simp add: otlp_exporter_flush_def)
  have round: "export_thread_round e1 =
      (e0, if sps = [] then None else Some (map Some (map copy_span sps)))"
    using cnt drained empty by (simp add: export_thread_round_def)
  have full: "otlp_export_span (Some e1) (Some extra) = (- 1, Some e1)" if "length sps = 64"
    using that cnt by (simp add: otlp_export_span_def MAX_BATCH_SIZE_def)
  from rcs cnt copies flush round full show ?thesis
    by blast
qed

text \<open>Claim C3 at two spans, and at a full batch of 64.\<close>

theorem batch_fifo_and_capacity_witness:
  "fst (export_spans (otlp_exporter_create ''service-f'') [example_root_span, failed_span]) = [0, 0] \<and>
   (\<exists>cs. list_all2 copied_from [example_root_span, failed_span] cs \<and>
      otlp_exporter_flush
        (Some (snd (export_spans (otlp_exporter_create ''service-f'')
                      [example_root_span, failed_span]))) =
        (0, Some (otlp_exporter_create ''service-f''), Some (map Some cs))) \<and>
   otlp_export_span
     (Some (snd (export_spans (otlp_exporter_create ''service-f'') (replicate 64 example_root_span))))
     (Some failed_span) =
     (- 1, Some (snd (export_spans (otlp_exporter_create ''service-f'')
                        (replicate 64 example_root_span))))"
  using batch_fifo_and_capacity [of "[example_root_span, failed_span]" "''service-f''" failed_span]
    batch_fifo_and_capacity [of "replicate 64 example_root_span" "''service-f''" failed_span]
  by (simp del: export_spans.simps) blast

text \<open>Claim C3 as stated fails on the items themselves: a span with a NULL name and a
  status message comes out of the drain with the empty name and no status message.\<close>

theorem batch_items_counterexample:
  "otlp_exporter_flush (Some (snd (export_spans (otlp_exporter_create ''service-f'') [failed_span]))) =
     (0, Some (otlp_exporter_create ''service-f''),
      Some [Some (failed_span\<lparr>name := Some [], status_message := None\<rparr>)]) \<and>
   failed_span\<lparr>name := Some [], status_message := None\<rparr> \<noteq> failed_span"
proof -
  have n: "length [failed_span] \<le> MAX_BATCH_SIZE"
    by (simp add: MAX_BATCH_SIZE_def)
  have c: "copy_span failed_span = failed_span\<lparr>name := Some [], status_message := None\<rparr>"
    by (simp add: copy_span_def failed_span_def copy_attributes_def)
  have "failed_span\<lparr>name := Some [], status_message := None\<rparr> \<noteq> failed_span"
    by (simp add: failed_span_def)
  then show ?thesis
    using take_batch_created [OF n, of "''service-f''"] export_spans_created [OF n, of "''service-f''"] c
    by (simp add: otlp_exporter_flush_def)
qed

section \<open>Properties of the hex codec\<close>

lemma lower_hex_digits_all:
  "list_all (\<lambda>c. \<not> isspace c \<and> c \<noteq> CHR ''-'' \<and> c \<noteq> CHR ''+'' \<and>
      (if (of_char c :: nat) \<le> 57 then of_char c - 48 else of_char c - 87) < (16 :: nat) \<and>
      hex_digit_val c = Some (if (of_char c :: nat) \<le> 57 then of_char c - 48 else of_char c - 87) \<and>
      hex_digits ! (if (of_char c :: nat) \<le> 57 then of_char c - 48 else of_char c - 87) = c)
    hex_digits"
  by (simp add: hex_digits_def isspace_def hex_digit_val_def)

lemma lower_hex_digit:
  assumes "c \<in> set hex_digits"
  shows "\<not> isspace c \<and> c \<noteq> CHR ''-'' \<and> c \<noteq> CHR ''+'' \<and>
         (\<exists>v < 16. hex_digit_val c = Some v \<and> hex_digits ! v = c)"
  using lower_hex_digits_all assms unfolding list_all_iff by blast

lemma sscanf_2x_two_digits:
  assumes "\<not> isspace a" and "a \<noteq> CHR ''-''" and "a \<noteq> CHR ''+''"
    and "hex_digit_val a = Some va" and "hex_digit_val b = Some vb"
  shows "sscanf_2x (a # b # r) = Some (of_nat (16 * va + vb))"
  using assms by (simp add: sscanf_2x_def)

lemma unat_byte_of_uint:
  assumes "k < 256"
  shows "unat (ucast (of_nat k :: 32 word) :: 8 word) = k"
proof -
  have "unat (ucast (of_nat k :: 32 word) :: 8 word) = k mod 2 ^ 32 mod 2 ^ 8"
    by (simp add: unsigned_ucast_eq unat_of_nat take_bit_eq_mod)
  with assms show ?thesis
    by simp
qed

lemma byte_of_two_digits:
  assumes "va < 16" and "vb < 16"
  defines "w \<equiv> (ucast (of_nat (16 * va + vb) :: 32 word) :: 8 word)"
  shows "unat w div 16 = va \<and> unat w mod 16 = vb"
proof -
  have "16 * va + vb < 256"
    using assms(1,2) by simp
  then have "unat w = 16 * va + vb"
    unfolding w_def by (rule unat_byte_of_uint)
  with assms(2) show ?thesis
    by simp
qed

lemma bytes_to_hex_append: "bytes_to_hex (xs @ ys) = bytes_to_hex xs @ bytes_to_hex ys"
  by (simp add: bytes_to_hex_def)

lemma hex_to_bytes_loop_round_trip:
  assumes "lower_hex_string hex" and "length hex = 2 * n" and "length bytes = n"
    and "i \<le> n" and "bytes_to_hex (take i bytes) = take (2 * i) hex"
  shows "fst (hex_to_bytes_loop hex n i bytes) = 0 \<and>
         length (snd (hex_to_bytes_loop hex n i bytes)) = n \<and>
         bytes_to_hex (snd (hex_to_bytes_loop hex n i bytes)) = hex"
  using assms
proof (induction hex n i bytes rule: hex_to_bytes_loop.induct)
  case (1 hex n i bytes)
  show ?case
  proof (cases "i < n")
    case False
    with "1.prems" have "i = n" by simp
    with "1.prems" show ?thesis
      by (simp add: hex_to_bytes_loop.simps [of hex n n])
  next
    case True
    then have l: "2 * i + 1 < length hex" "2 * i < length hex"
      using "1.prems"(2) by simp_all
    define a where "a = hex ! (2 * i)"
    define b where "b = hex ! (2 * i + 1)"
    have d: "drop (i * 2) hex = a # b # drop (2 * i + 2) hex"
      using l by (simp add: a_def b_def Cons_nth_drop_Suc mult.commute)
    have "a \<in> set hex" "b \<in> set hex"
      using l by (simp_all add: a_def b_def)
    then have ab: "a \<in> set hex_digits" "b \<in> set hex_digits"
      using "1.prems"(1) by (simp_all add: lower_hex_string_def list_all_iff)
    from lower_hex_digit [OF ab(1)] obtain va where
      va: "\<not> isspace a" "a \<noteq> CHR ''-''" "a \<noteq> CHR ''+''" "va < 16"
        "hex_digit_val a = Some va" "hex_digits ! va = a"
      by blast
    from lower_hex_digit [OF ab(2)] obtain vb where
      vb: "vb < 16" "hex_digit_val b = Some vb" "hex_digits ! vb = b"
      by blast
    let ?val = "of_nat (16 * va + vb) :: 32 word"
    let ?bytes = "bytes[i := ucast ?val]"
    have sc: "sscanf_2x (drop (i * 2) hex) = Some ?val"
      unfolding d by (rule sscanf_2x_two_digits [OF va(1,2,3,5) vb(2)])
    have one: "bytes_to_hex [ucast ?val :: 8 word] = [a, b]"
      using byte_of_two_digits [OF va(4) vb(1)] va(6) vb(3) by (simp add: bytes_to_hex_def)
    have "take (i + 1) ?bytes = take i bytes @ [ucast ?val]"
      using True "1.prems"(3) by (simp add: take_Suc_conv_app_nth)
    moreover have "take (2 * (i + 1)) hex = take (2 * i) hex @ [a, b]"
      using l by (simp add: a_def b_def take_Suc_conv_app_nth)
    ultimately have inv: "bytes_to_hex (take (i + 1) ?bytes) = take (2 * (i + 1)) hex"
      using "1.prems"(5) one by (simp add: bytes_to_hex_append)
    have "fst (hex_to_bytes_loop hex n (i + 1) ?bytes) = 0 \<and>
         length (snd (hex_to_bytes_loop hex n (i + 1) ?bytes)) = n \<and>
         bytes_to_hex (snd (hex_to_bytes_loop hex n (i + 1) ?bytes)) = hex"
      using True "1.prems"(1,2,3) inv by (intro "1.IH" [OF True sc]) simp_all
    then show ?thesis
      using True sc by (simp add: hex_to_bytes_loop.simps [of hex n i])
  qed
qed

text \<open>
  Claim C4. A string of 32 characters, each one of \<open>0123456789abcdef\<close>, is given,
  and a buffer of 16 bytes of any content. Then \<open>hex_to_bytes\<close> with \<open>len = 16\<close>
  returns 0, and the 16 bytes it leaves in the buffer, rendered as lowercase
  hexadecimal text, are the string again.
\<close>

theorem trace_id_hex_round_trip:
  assumes "length hex = 32" and "lower_hex_string hex" and "length bytes = 16"
  shows "fst (hex_to_bytes hex bytes 16) = 0 \<and>
         length (snd (hex_to_bytes hex bytes 16)) = 16 \<and>
         bytes_to_hex (snd (hex_to_bytes hex bytes 16)) = hex"
  unfolding hex_to_bytes_def
  using assms by (intro hex_to_bytes_loop_round_trip) (simp_all add: bytes_to_hex_def)

text \<open>Claim C4 at the trace id of the W3C example header.\<close>

theorem trace_id_hex_round_trip_witness:
  "fst (hex_to_bytes ''4bf92f3577b34da6a3ce929d0e0e4736'' (replicate 16 0) 16) = 0 \<and>
   bytes_to_hex (snd (hex_to_bytes ''4bf92f3577b34da6a3ce929d0e0e4736'' (replicate 16 0) 16)) =
     ''4bf92f3577b34da6a3ce929d0e0e4736''"
  using trace_id_hex_round_trip [of "''4bf92f3577b34da6a3ce929d0e0e4736''" "replicate 16 0"]
  by (simp add: lower_hex_string_def hex_digits_def)

section \<open>Properties of the trace context extraction\<close>

lemma c_str_no_NUL: "NUL \<notin> set (c_str v)"
  by (auto simp: c_str_def dest: set_takeWhileD)

lemma c_str_append_NUL:
  assumes "NUL \<notin> set a"
  shows "c_str (a @ NUL # b) = a"
  using assms by (auto simp: c_str_def takeWhile_tail takeWhile_eq_all_conv)

lemma takeWhile_after_dropWhile: "takeWhile P (dropWhile P xs) = []"
  by (induction xs) simp_all

lemma drop_within_c_str:
  assumes "j \<le> strlen v"
  shows "drop j v = drop j (c_str v) @ dropWhile (\<lambda>c. c \<noteq> NUL) v"
proof -
  let ?P = "\<lambda>c. c \<noteq> NUL"
  have "drop j (takeWhile ?P v @ dropWhile ?P v) = drop j (takeWhile ?P v) @ dropWhile ?P v"
    using assms by (simp add: strlen_def c_str_def del: takeWhile_dropWhile_id)
  then show ?thesis
    by (simp only: takeWhile_dropWhile_id c_str_def)
qed

lemma c_str_drop:
  assumes "j \<le> strlen v"
  shows "c_str (drop j v) = drop j (c_str v)"
proof -
  let ?P = "\<lambda>c. c \<noteq> NUL"
  have "\<forall>x \<in> set (drop j (c_str v)). ?P x"
    using c_str_no_NUL [of v] by (metis in_set_dropD)
  then have "takeWhile ?P (drop j (c_str v) @ dropWhile ?P v) = drop j (c_str v)"
    by (simp add: takeWhile_append2 takeWhile_after_dropWhile)
  then show ?thesis
    using drop_within_c_str [OF assms] by (simp add: c_str_def)
qed

text \<open>The two writes of an identifier: \<open>strncpy\<close> of \<open>n\<close> characters, then the NUL.\<close>

lemma identifier_written:
  assumes "j + n \<le> strlen v" and "n < length buf" and "0 < n"
  defines "buf' \<equiv> (strncpy buf (drop j v) n)[n := NUL]"
  shows "c_str buf' = take n (drop j v)" and "length buf' = length buf"
    and "buf' ! 0 \<noteq> NUL" and "length (take n (drop j v)) = n"
proof -
  let ?a = "take n (drop j (c_str v))"
  have j: "j \<le> strlen v"
    using assms(1) by simp
  have la: "length ?a = n"
    using assms(1) by (simp add: strlen_def)
  have a: "?a = take n (drop j v)"
  proof -
    have "drop j v = drop j (c_str v) @ dropWhile (\<lambda>c. c \<noteq> NUL) v"
      using j by (rule drop_within_c_str)
    then show ?thesis
      using assms(1) by (simp add: strlen_def)
  qed
  have nn: "NUL \<notin> set ?a"
    using c_str_no_NUL [of v] by (meson in_set_dropD in_set_takeD)
  have cp: "strncpy buf (drop j v) n = ?a @ drop n buf"
    using la by (simp add: strncpy_def c_str_drop [OF j])
  obtain x rest where d: "drop n buf = x # rest"
    using assms(2) by (cases "drop n buf") simp_all
  have b: "buf' = ?a @ NUL # rest"
    unfolding buf'_def cp using la d by (simp add: list_update_append)
  show "c_str buf' = take n (drop j v)"
    unfolding b using nn a by (simp add: c_str_append_NUL)
  have "length (drop n buf) = length buf - n"
    by simp
  with d assms(2) show "length buf' = length buf"
    unfolding b using la by simp
  have "?a \<noteq> []"
    using la assms(3) by auto
  then have "buf' ! 0 = ?a ! 0"
    unfolding b by (simp add: nth_append)
  moreover have "?a ! 0 \<in> set ?a"
    using la assms(3) by (intro nth_mem) simp
  ultimately show "buf' ! 0 \<noteq> NUL"
    using nn by metis
  show "length (take n (drop j v)) = n"
    using la a by simp
qed


lemma scan_metadata_last:
  assumes "length t = 64" and "length p = 32"
  shows "case filter is_traceparent md of
           [] \<Rightarrow> scan_metadata md t p = (t, p)
         | _ \<Rightarrow>
            (let v = snd (last (filter is_traceparent md));
                 (t', p') = scan_metadata md t p
             in c_str t' = take 32 (drop 3 v) \<and> c_str p' = take 16 (drop 36 v) \<and>
                t' ! 0 \<noteq> NUL \<and> length (take 32 (drop 3 v)) = 32 \<and>
                length (take 16 (drop 36 v)) = 16)"
  using assms
proof (induction md arbitrary: t p)
  case Nil
  then show ?case by simp
next
  case (Cons kv md)
  obtain k v where kv: "kv = (k, v)"
    by (cases kv)
  show ?case
  proof (cases "is_traceparent kv")
    case False
    then have "scan_metadata (kv # md) t p = scan_metadata md t p"
      by (auto simp: kv is_traceparent_def)
    with False Cons.IH [OF Cons.prems] show ?thesis
      by (auto split: list.splits)
  next
    case True
    then have len: "55 \<le> strlen v" and key: "c_str k = ''traceparent''"
      by (simp_all add: kv is_traceparent_def)
    let ?t = "(strncpy t (drop 3 v) 32)[32 := NUL]"
    let ?p = "(strncpy p (drop 36 v) 16)[16 := NUL]"
    have step: "scan_metadata (kv # md) t p = scan_metadata md ?t ?p"
      using len key by (simp add: kv)
    have sv: "snd kv = v"
      by (simp add: kv)
    have t: "c_str ?t = take 32 (drop 3 v)" "length ?t = 64" "?t ! 0 \<noteq> NUL"
      "length (take 32 (drop 3 v)) = 32"
      using identifier_written [of 3 32 v t] len Cons.prems(1) by simp_all
    have p: "c_str ?p = take 16 (drop 36 v)" "length ?p = 32"
      "length (take 16 (drop 36 v)) = 16"
      using identifier_written [of 36 16 v p] len Cons.prems(2) by simp_all
    show ?thesis
    proof (cases "filter is_traceparent md")
      case Nil
      with Cons.IH [OF t(2) p(2)] have "scan_metadata md ?t ?p = (?t, ?p)"
        by simp
      with True Nil t p show ?thesis
        by (simp add: step sv del: scan_metadata.simps)
    next
      case (Cons w ws)
      with Cons.IH [OF t(2) p(2)] True show ?thesis
        by (simp add: step del: scan_metadata.simps)
    qed
  qed
qed

lemma scan_metadata_none:
  assumes "filter is_traceparent md = []"
  shows "scan_metadata md t p = (t, p)"
  using assms
proof (induction md)
  case Nil
  then show ?case by simp
next
  case (Cons kv md)
  then show ?case
    by (cases kv) (auto simp: is_traceparent_def split: if_splits)
qed

lemma scan_metadata_found:
  assumes "filter is_traceparent md \<noteq> []" and "length t = 64" and "length p = 32"
  defines "v \<equiv> snd (last (filter is_traceparent md))"
  shows "c_str (fst (scan_metadata md t p)) = take 32 (drop 3 v) \<and>
         c_str (snd (scan_metadata md t p)) = take 16 (drop 36 v) \<and>
         fst (scan_metadata md t p) ! 0 \<noteq> NUL \<and>
         length (take 32 (drop 3 v)) = 32 \<and> length (take 16 (drop 36 v)) = 16"
proof -
  obtain w ws where f: "filter is_traceparent md = w # ws"
    using assms(1) by (cases "filter is_traceparent md") simp_all
  obtain t' p' where tp: "scan_metadata md t p = (t', p')"
    by (cases "scan_metadata md t p")
  from scan_metadata_last [OF assms(2,3), of md] show ?thesis
    unfolding f list.case Let_def tp prod.case v_def fst_conv snd_conv .
qed

text \<open>The generator loop fills the cells from \<open>i\<close> up to \<open>n\<close>.\<close>

lemma generate_id_loop_fills:
  assumes "i \<le> n" and "n \<le> length out" and "n \<le> size_sub sz 1"
  shows "generate_id_loop n sz i out g =
           (take i out @ map (\<lambda>k. hex_digits ! (g k mod 16)) [0..<n - i] @ drop n out,
            \<lambda>k. g (k + (n - i)))"
  using assms
proof (induction n sz i out g rule: generate_id_loop.induct)
  case (1 n sz i out g)
  show ?case
  proof (cases "i < n")
    case False
    with "1.prems" have "i = n" by simp
    then show ?thesis
      by (simp add: generate_id_loop.simps [of n sz n])
  next
    case True
    let ?x = "hex_digits ! (g 0 mod 16)"
    let ?g = "\<lambda>k. g (Suc k)"
    have cond: "i < size_sub sz 1 \<and> i < n"
      using True "1.prems"(3) by simp
    have r: "rand g = (g 0, ?g)"
      by (simp add: rand_def)
    have ih: "generate_id_loop n sz (i + 1) (out[i := ?x]) ?g =
        (take (i + 1) (out[i := ?x]) @ map (\<lambda>k. hex_digits ! (?g k mod 16)) [0..<n - (i + 1)]
           @ drop n (out[i := ?x]),
         \<lambda>k. ?g (k + (n - (i + 1))))"
      using True "1.prems"(2,3) by (intro "1.IH" [OF cond r [symmetric] refl]) simp_all
    have a: "take (i + 1) (out[i := ?x]) = take i out @ [?x]"
      using True "1.prems"(2) by (simp add: take_Suc_conv_app_nth)
    have b: "drop n (out[i := ?x]) = drop n out"
      using True by simp
    have c: "n - i = Suc (n - (i + 1))"
      using True by simp
    have d: "(\<lambda>k. ?g (k + (n - (i + 1)))) = (\<lambda>k. g (k + (n - i)))"
      using True by (simp add: c)
    have "generate_id_loop n sz i out g = generate_id_loop n sz (i + 1) (out[i := ?x]) ?g"
      using cond by (simp add: generate_id_loop.simps [of n sz i] r)
    then show ?thesis
      unfolding ih a b d by (simp add: c map_upt_Suc del: upt_Suc)
  qed
qed


lemma hex_digit_not_NUL: "hex_digits ! (k mod 16) \<in> set hex_digits \<and> hex_digits ! (k mod 16) \<noteq> NUL"
proof -
  have "list_all (\<lambda>c. c \<noteq> NUL) hex_digits"
    by (simp add: hex_digits_def NUL_def)
  moreover have "hex_digits ! (k mod 16) \<in> set hex_digits"
    by (intro nth_mem) (simp add: hex_digits_def)
  ultimately show ?thesis
    by (simp add: list_all_iff)
qed

lemma generated_trace_id:
  defines "fresh \<equiv> \<lambda>g. map (\<lambda>k. hex_digits ! (g k mod 16)) [0..<32]"
  shows "c_str (fst (generate_trace_id (replicate 64 NUL) 64 g)) = fresh g"
proof -
  have s: "size_sub 64 1 = 63"
    by (simp add: size_sub_def)
  have "32 \<le> size_sub 64 1"
    unfolding s by simp
  then have "generate_id_loop 32 64 0 (replicate 64 NUL) g =
      (take 0 (replicate 64 NUL) @ map (\<lambda>k. hex_digits ! (g k mod 16)) [0..<32 - 0]
         @ drop 32 (replicate 64 NUL), \<lambda>k. g (k + (32 - 0)))"
    by (intro generate_id_loop_fills) simp_all
  then have "fst (generate_trace_id (replicate 64 NUL) 64 g) =
      (fresh g @ replicate 32 NUL)[63 := NUL]"
    unfolding generate_trace_id_def s by (simp add: fresh_def)
  also have "\<dots> = fresh g @ (replicate 32 NUL)[31 := NUL]"
    by (simp add: list_update_append fresh_def)
  also have "(replicate 32 NUL)[31 := NUL] = replicate (Suc 31) NUL"
    by (simp add: list_update_same_conv)
  also have "\<dots> = NUL # replicate 31 NUL"
    by (rule replicate_Suc)
  finally have "fst (generate_trace_id (replicate 64 NUL) 64 g) = fresh g @ NUL # replicate 31 NUL" .
  moreover have "NUL \<notin> set (fresh g)"
  proof
    assume "NUL \<in> set (fresh g)"
    then obtain k where "NUL = hex_digits ! (g k mod 16)"
      by (auto simp: fresh_def)
    then show False
      using hex_digit_not_NUL [of "g k"] by simp
  qed
  ultimately show ?thesis
    by (simp add: c_str_append_NUL)
qed

text \<open>
  Claim C5. \<open>extract_trace_context\<close> is called as \<open>handle_fetch_legacy_data\<close> calls it,
  on its zeroed buffers of 64 and 32 characters. The entries that count are those whose
  key is \<open>traceparent\<close> and whose value has at least 55 characters
  (\<open>is_traceparent\<close>). If there is one, the trace id is the 32 characters of the value
  from offset 3 and the parent span id the 16 characters from offset 36, whatever the
  characters are (of the last such entry, should there be several). If there is none,
  the header being absent or shorter, the trace id is 32 characters of
  \<open>0123456789abcdef\<close> drawn from \<open>rand()\<close> and the parent span id is empty. The
  function has no failing path.
\<close>

theorem trace_context_extraction:
  fixes md :: "grpc_metadata list" and g :: rand_state
  defines "found \<equiv> filter is_traceparent md"
  defines "r \<equiv> extract_trace_context md (replicate 64 NUL) 64 (replicate 32 NUL) 32 g"
  defines "tid \<equiv> c_str (fst r)" and "parent \<equiv> c_str (fst (snd r))"
  shows "(found \<noteq> [] \<longrightarrow>
            tid = take 32 (drop 3 (snd (last found))) \<and> length tid = 32 \<and>
            parent = take 16 (drop 36 (snd (last found))) \<and> length parent = 16) \<and>
         (found = [] \<longrightarrow>
            tid = map (\<lambda>k. hex_digits ! (g k mod 16)) [0..<32] \<and> length tid = 32 \<and>
            lower_hex_string tid \<and> parent = []) \<and>
         fst (handler_trace_ids md g) = tid \<and> fst (snd (handler_trace_ids md g)) = parent"
proof -
  let ?t = "replicate 64 NUL" and ?p = "replicate 32 NUL"
  have z: "?t[0 := NUL] = ?t" "?p[0 := NUL] = ?p"
    by (simp_all add: list_update_same_conv)
  have r: "r = (let (t, p) = scan_metadata md ?t ?p
                in if t ! 0 = NUL
                   then (let (t', g') = generate_trace_id t 64 g in (t', p, g'))
                   else (t, p, g))"
    by (simp add: r_def extract_trace_context_def z)
  have present: "tid = take 32 (drop 3 (snd (last found))) \<and> length tid = 32 \<and>
            parent = take 16 (drop 36 (snd (last found))) \<and> length parent = 16"
    if "found \<noteq> []"
  proof -
    obtain t' p' where tp: "scan_metadata md ?t ?p = (t', p')"
      by (cases "scan_metadata md ?t ?p")
    have "filter is_traceparent md \<noteq> []"
      using that by (simp add: found_def)
    from scan_metadata_found [OF this, of ?t ?p] have
      c: "c_str t' = take 32 (drop 3 (snd (last found)))"
         "c_str p' = take 16 (drop 36 (snd (last found)))" "t' ! 0 \<noteq> NUL"
         "length (take 32 (drop 3 (snd (last found)))) = 32"
         "length (take 16 (drop 36 (snd (last found)))) = 16"
      unfolding tp found_def by simp_all
    have "r = (t', p', g)"
      using c(3) by (simp add: r tp)
    then show ?thesis
      using c by (simp add: tid_def parent_def)
  qed
  have absent: "tid = map (\<lambda>k. hex_digits ! (g k mod 16)) [0..<32] \<and> length tid = 32 \<and>
            lower_hex_string tid \<and> parent = []"
    if "found = []"
  proof -
    from that have tp: "scan_metadata md ?t ?p = (?t, ?p)"
      unfolding found_def by (rule scan_metadata_none)
    have "r = (fst (generate_trace_id ?t 64 g), ?p, snd (generate_trace_id ?t 64 g))"
      by (simp add: r tp split: prod.splits)
    then have t: "tid = map (\<lambda>k. hex_digits ! (g k mod 16)) [0..<32]" and p: "parent = c_str ?p"
      by (simp_all add: tid_def parent_def generated_trace_id)
    have "lower_hex_string tid"
      unfolding t lower_hex_string_def list_all_iff using hex_digit_not_NUL by auto
    moreover have "c_str ?p = []"
      by (simp add: c_str_def)
    ultimately show ?thesis
      using t p by simp
  qed
  have "fst (handler_trace_ids md g) = tid \<and> fst (snd (handler_trace_ids md g)) = parent"
    by (simp add: handler_trace_ids_def tid_def parent_def r_def split: prod.splits)
  with present absent show ?thesis
    by blast
qed

text \<open>Claim C5 at the W3C example header, and at a header of 45 characters.\<close>

theorem trace_context_extraction_witness:
  "fst (handler_trace_ids w3c_metadata (\<lambda>k. 7)) = ''4bf92f3577b34da6a3ce929d0e0e4736'' \<and>
   fst (snd (handler_trace_ids w3c_metadata (\<lambda>k. 7))) = ''00f067aa0ba902b7'' \<and>
   fst (handler_trace_ids short_metadata (\<lambda>k. k)) = ''0123456789abcdef0123456789abcdef'' \<and>
   fst (snd (handler_trace_ids short_metadata (\<lambda>k. k))) = []"
proof -
  have a: "filter is_traceparent w3c_metadata =
      [(''traceparent'', ''00-4bf92f3577b34da6a3ce929d0e0e4736-00f067aa0ba902b7-01'')]"
    by (simp add: w3c_metadata_def is_traceparent_def strlen_def c_str_def NUL_def)
  have b: "filter is_traceparent short_metadata = []"
    by (simp add: short_metadata_def is_traceparent_def strlen_def c_str_def NUL_def)
  have c: "map (\<lambda>k. hex_digits ! (k mod 16)) [0..<32] = ''0123456789abcdef0123456789abcdef''"
    by (simp add: hex_digits_def upt_rec [of _ "numeral _"])
  show ?thesis
    using trace_context_extraction [of w3c_metadata "\<lambda>k. 7"]
      trace_context_extraction [of short_metadata "\<lambda>k. k"]
    by (simp add: a b c)
qed

end
